theory Spec2Isabelle
  imports Complex_Main "HOL-Library.Signed_Division"
begin

section \<open>The media source muxer of Homer Conferencing\<close>

text \<open>
  A shallow embedding of the parts of \<^verbatim>\<open>MediaSourceMuxer\<close> (the muxer implementation file)
  that the specification makes claims about: the preference setter, the resolution
  validator, the frame-rate gate, the timestamp handling and the silence suppression of the
  transcode thread, the queue overload check, the frame-rate clamp of the open calls and
  the device selector.

  Conventions of the model.
  \<^item> C++ \<^verbatim>\<open>int\<close> and \<^verbatim>\<open>int64_t\<close> values are HOL integers. Where the code does arithmetic
    on an \<^verbatim>\<open>int\<close> a caller hands in (the resolution validator and the packet budget of the
    preference setter), the result is wrapped to 32 bits with \<open>int32\<close>, which is what the
    compiled code stores when the operation overflows. The counters and timestamps of the
    transcode thread are not wrapped: the model describes the runs in which they stay
    inside their machine type.
  \<^item> C++ integer division truncates towards zero; it is written \<open>sdiv\<close> here.
  \<^item> A \<^verbatim>\<open>float\<close> value (a frame rate) is a real number or not-a-number, see \<open>cfloat\<close>.
  \<^item> Functions and constants of collaborators that are not part of the modelled file
    (the codec engine, the RTP and socket headers, the sources, the clock) are fields of an
    environment record, so every theorem holds for every behaviour of them.
\<close>

subsection \<open>Codec identifiers and media types\<close>

datatype AVCodecID =
    AV_CODEC_ID_NONE
  | AV_CODEC_ID_H261
  | AV_CODEC_ID_H263
  | AV_CODEC_ID_H263P
  | AV_CODEC_ID_H264
  | AV_CODEC_ID_HEVC
  | AV_CODEC_ID_THEORA
  | AV_CODEC_ID_MPEG1VIDEO
  | AV_CODEC_ID_MPEG2VIDEO
  | AV_CODEC_ID_MPEG4
  | AV_CODEC_ID_MJPEG
  | AV_CODEC_ID_ADPCM_G722
  | AV_CODEC_ID_AMR_NB
  | AV_CODEC_ID_GSM
  | AV_CODEC_ID_PCM_ALAW
  | AV_CODEC_ID_PCM_MULAW
  | AV_CODEC_ID_PCM_S16BE
  | AV_CODEC_ID_MP3
  | AV_CODEC_ID_OTHER nat

datatype MediaType = MEDIA_UNKNOWN | MEDIA_VIDEO | MEDIA_AUDIO

subsection \<open>The resolution validator\<close>

text \<open>
  \<^verbatim>\<open>ValidateVideoResolutionForEncoderCodec(int &pResX, int &pResY, enum AVCodecID pCodec)\<close>
  updates its two reference parameters; the model returns the new pair. The function reads
  and writes no member of the muxer; its verbose log line is not modelled.
\<close>

text \<open>
  The value a 32 bit \<^verbatim>\<open>int\<close> holds after an operation whose mathematical result is \<open>x\<close>:
  \<open>x\<close> itself when it lies between \<open>-2147483648\<close> and \<open>2147483647\<close>, and \<open>x\<close> reduced modulo
  \<open>2 ^ 32\<close> into that range otherwise.
\<close>

definition int32 :: "int \<Rightarrow> int" where
  "int32 x = (x + 2147483648) mod 4294967296 - 2147483648"

text \<open>
  The three statements \<^verbatim>\<open>pRes += 3; pRes /= 4; pRes *= 4;\<close> and \<^verbatim>\<open>pRes += 1; pRes /= 2;
  pRes *= 2;\<close> of the validator.
\<close>

definition roundUpTo4 :: "int \<Rightarrow> int" where
  "roundUpTo4 r = int32 ((int32 (r + 3) sdiv 4) * 4)"

definition roundUpTo2 :: "int \<Rightarrow> int" where
  "roundUpTo2 r = int32 ((int32 (r + 1) sdiv 2) * 2)"

fun ValidateVideoResolutionForEncoderCodec :: "int \<Rightarrow> int \<Rightarrow> AVCodecID \<Rightarrow> int \<times> int" where
  "ValidateVideoResolutionForEncoderCodec pResX pResY AV_CODEC_ID_H261 =
     (if pResX > 176 then (352, 288) else (176, 144))"
| "ValidateVideoResolutionForEncoderCodec pResX pResY AV_CODEC_ID_H263 =
     (if pResX > 704 then (1408, 1152)
      else if pResX > 352 then (704, 576)
      else if pResX > 176 then (352, 288)
      else if pResX > 128 then (176, 144)
      else (128, 96))"
| "ValidateVideoResolutionForEncoderCodec pResX pResY AV_CODEC_ID_H263P =
     (let (x, y) = (if pResX > 2048 \<or> pResY > 1152 then (2048, 1152) else (pResX, pResY))
      in (roundUpTo4 x, roundUpTo4 y))"
| "ValidateVideoResolutionForEncoderCodec pResX pResY AV_CODEC_ID_H264 =
     (roundUpTo2 pResX, roundUpTo2 pResY)"
| "ValidateVideoResolutionForEncoderCodec pResX pResY AV_CODEC_ID_HEVC =
     (roundUpTo2 pResX, roundUpTo2 pResY)"
| "ValidateVideoResolutionForEncoderCodec pResX pResY AV_CODEC_ID_THEORA = (352, 288)"
| "ValidateVideoResolutionForEncoderCodec pResX pResY pCodec = (pResX, pResY)"

text \<open>The codecs that have a branch of their own in the \<^verbatim>\<open>switch\<close> of the validator.\<close>

definition hasResolutionPolicy :: "AVCodecID \<Rightarrow> bool" where
  "hasResolutionPolicy c \<longleftrightarrow>
     c = AV_CODEC_ID_H261 \<or> c = AV_CODEC_ID_H263 \<or> c = AV_CODEC_ID_H263P \<or>
     c = AV_CODEC_ID_H264 \<or> c = AV_CODEC_ID_HEVC \<or> c = AV_CODEC_ID_THEORA"

subsection \<open>The collaborators\<close>

text \<open>
  What the preference setter uses from outside the modelled file: the codec name table of
  the base class, the encoder lookup of the codec engine, the header sizes of the socket
  and RTP layers and the size of the fragment buffer of the memory source.
\<close>

record env =
  GetCodecIDFromGuiName :: "string \<Rightarrow> AVCodecID"
  GetGuiNameFromCodecID :: "AVCodecID \<Rightarrow> string"
  avcodec_find_encoder :: "AVCodecID \<Rightarrow> bool"
  IP6_HEADER_SIZE :: int
  IP_OPTIONS_SIZE :: int
  TCP_HEADER_SIZE :: int
  TCP_FRAGMENT_HEADER_SIZE :: int
  GetHeaderSizeMax :: "AVCodecID \<Rightarrow> int"
  MEDIA_SOURCE_MEM_FRAGMENT_BUFFER_SIZE :: int

subsection \<open>The packet budget\<close>

text \<open>
  The first statements of \<^verbatim>\<open>SetOutputStreamPreferences\<close> on \<^verbatim>\<open>pMaxPacketSize\<close>: five
  subtractions on the \<^verbatim>\<open>int\<close> parameter, each wrapped to 32 bits, and the sanity check,
  which has an upper bound only.
\<close>

definition packetOverhead :: "'a env_scheme \<Rightarrow> AVCodecID \<Rightarrow> int" where
  "packetOverhead e c =
     IP6_HEADER_SIZE e + IP_OPTIONS_SIZE e + TCP_HEADER_SIZE e + TCP_FRAGMENT_HEADER_SIZE e
       + GetHeaderSizeMax e c"

definition adjustMaxPacketSize :: "'a env_scheme \<Rightarrow> AVCodecID \<Rightarrow> int \<Rightarrow> int" where
  "adjustMaxPacketSize e tStreamCodecId pMaxPacketSize =
     (let p1 = int32 (pMaxPacketSize - IP6_HEADER_SIZE e);
          p2 = int32 (p1 - IP_OPTIONS_SIZE e);
          p3 = int32 (p2 - TCP_HEADER_SIZE e);
          p4 = int32 (p3 - TCP_FRAGMENT_HEADER_SIZE e);
          p5 = int32 (p4 - GetHeaderSizeMax e tStreamCodecId)
      in if p5 > MEDIA_SOURCE_MEM_FRAGMENT_BUFFER_SIZE e - 256
         then MEDIA_SOURCE_MEM_FRAGMENT_BUFFER_SIZE e - 256 else p5)"


subsection \<open>The state of the muxer\<close>

text \<open>
  The messages of the modelled functions that report a decision. Verbose lines that only
  print the values of fields are left out.
\<close>

datatype log_event =
    LogEncoderNotFound string
  | LogUnsupportedCodec string
  | LogResolutionChanged int int int int
  | LogSettingNewPreferences
  | LogDoReset
  | LogNoSettingsChanged
  | LogMuxerNotOpened
  | LogNoFittingCodec
  | LogContextDefaultsFailed
  | LogCodecOpenRetry
  | LogCodecOpenFailed
  | LogMediaTypeUnknown
  | LogInputTimestampTooLow int int
  | LogEncoderStartTimeInvalid
  | LogResampledSamplesInvalid int
  | LogSkippedTranscoderTask
  | LogFifoNearOverload
  | LogNoSourceRegistered
  | LogCouldNotSelectDevice string
  | LogFailedToOpenNewSource
  | LogSourceOnlyReselected

datatype AVSampleFormat = AV_SAMPLE_FMT_S16 | AV_SAMPLE_FMT_S16P

text \<open>
  A C++ \<^verbatim>\<open>float\<close>: the real number it stands for, or not-a-number. Every comparison with
  not-a-number is false, except \<^verbatim>\<open>!=\<close>, which is true. The model does not restrict the real
  numbers to those a \<^verbatim>\<open>float\<close> can hold, and it does not tell an infinite value from a finite
  value beyond every bound. The comparisons are those the muxer makes: of a \<^verbatim>\<open>float\<close> with a
  constant, and of two \<^verbatim>\<open>float\<close> values for inequality.
\<close>

datatype cfloat = FloatVal real | FloatNaN

definition float_gt :: "cfloat \<Rightarrow> real \<Rightarrow> bool" where
  "float_gt f c = (case f of FloatVal r \<Rightarrow> r > c | FloatNaN \<Rightarrow> False)"

definition float_lt :: "cfloat \<Rightarrow> real \<Rightarrow> bool" where
  "float_lt f c = (case f of FloatVal r \<Rightarrow> r < c | FloatNaN \<Rightarrow> False)"

definition float_ne :: "cfloat \<Rightarrow> cfloat \<Rightarrow> bool" where
  "float_ne a b = (case a of
                     FloatVal x \<Rightarrow> (case b of FloatVal y \<Rightarrow> x \<noteq> y | FloatNaN \<Rightarrow> True)
                   | FloatNaN \<Rightarrow> True)"

text \<open>
  A source is identified by a number, standing for the \<^verbatim>\<open>MediaSource*\<close> pointer;
  \<open>None\<close> is the null pointer.
\<close>

type_synonym source = nat

record muxer =
  mStreamCodecId :: AVCodecID
  mStreamMaxPacketSize :: int
  mStreamQuality :: int
  mStreamBitRate :: int
  mStreamMaxFps :: int
  mCurrentStreamingResX :: int
  mCurrentStreamingResY :: int
  mRequestedStreamingResX :: int
  mRequestedStreamingResY :: int
  mMediaSourceOpened :: bool
  mMediaType :: MediaType
  mSourceResX :: int
  mSourceResY :: int
  mInputFrameRate :: cfloat
  mOutputFrameRate :: cfloat
  mInputAudioChannels :: int
  mInputAudioSampleRate :: int
  mOutputAudioChannels :: int
  mOutputAudioSampleRate :: int
  mOutputAudioFormat :: AVSampleFormat
  frame_size :: int
  mFrameNumber :: int
  mEncoderStartTime :: int
  mEncoderThreadNeeded :: bool
  mStreamActivated :: bool
  mRelayingSkipAudioSilence :: bool
  mRelayingSkipAudioSilenceSkippedChunks :: int
  mStreamMaxFps_LastFrame_Timestamp :: int
  mMediaSource :: "source option"
  mLog :: "log_event list"

definition LOG :: "log_event \<Rightarrow> muxer \<Rightarrow> muxer" where
  "LOG ev m = m\<lparr>mLog := mLog m @ [ev]\<rparr>"

text \<open>
  The constructor \<^verbatim>\<open>MediaSourceMuxer(MediaSource *pMediaSource)\<close>. The members it leaves
  to the base class or uninitialised get the value of a closed muxer here.
\<close>

definition newMuxer :: "source option \<Rightarrow> muxer" where
  "newMuxer pMediaSource =
     \<lparr> mStreamCodecId = AV_CODEC_ID_NONE,
       mStreamMaxPacketSize = 500,
       mStreamQuality = 20,
       mStreamBitRate = -1,
       mStreamMaxFps = 0,
       mCurrentStreamingResX = 0,
       mCurrentStreamingResY = 0,
       mRequestedStreamingResX = 352,
       mRequestedStreamingResY = 288,
       mMediaSourceOpened = False,
       mMediaType = MEDIA_UNKNOWN,
       mSourceResX = 0,
       mSourceResY = 0,
       mInputFrameRate = FloatVal 0,
       mOutputFrameRate = FloatVal 0,
       mInputAudioChannels = 0,
       mInputAudioSampleRate = 0,
       mOutputAudioChannels = 0,
       mOutputAudioSampleRate = 0,
       mOutputAudioFormat = AV_SAMPLE_FMT_S16,
       frame_size = 0,
       mFrameNumber = 0,
       mEncoderStartTime = 0,
       mEncoderThreadNeeded = True,
       mStreamActivated = True,
       mRelayingSkipAudioSilence = False,
       mRelayingSkipAudioSilenceSkippedChunks = 0,
       mStreamMaxFps_LastFrame_Timestamp = 0,
       mMediaSource = pMediaSource,
       mLog = [] \<rparr>"

subsection \<open>Opening and closing the muxer\<close>

text \<open>
  What the open and close calls use from outside the modelled file: the frame rate and the
  resolution the base source reports, the outcome of the calls into the codec engine, the
  frame size the opened audio encoder reports, the clock, the default number of samples per
  buffer, and what the transcode thread uses: whether a source has a variable output frame
  rate, the resampler, the silence detector of the base class (with the threshold member it
  reads), the rescaling of the codec engine and the size limit of the input queue; and
  what the device selector uses: the \<^verbatim>\<open>SelectDevice\<close> of a source (it gets the current
  value of the reference parameter \<^verbatim>\<open>pIsNewDevice\<close> and gives back its result and the new
  value), the \<^verbatim>\<open>CloseGrabDevice\<close> of a source and the pointer of a new file source.
\<close>

record world = env +
  GetOutputFrameRate :: "source \<Rightarrow> cfloat"
  GetInputFrameRate :: "source \<Rightarrow> cfloat"
  GetVideoSourceResolution :: "source \<Rightarrow> int \<times> int \<Rightarrow> int \<times> int"
  avcodec_get_context_defaults3 :: "AVCodecID \<Rightarrow> bool"
  HM_avcodec_open :: "AVCodecID \<Rightarrow> bool \<Rightarrow> bool"
  encoder_frame_size :: "AVCodecID \<Rightarrow> int"
  MEDIA_SOURCE_SAMPLES_PER_BUFFER :: int
  GetTimeStamp :: int
  sourceOpenVideoGrabDevice :: "source \<Rightarrow> int \<Rightarrow> int \<Rightarrow> cfloat \<Rightarrow> bool"
  sourceOpenAudioGrabDevice :: "source \<Rightarrow> int \<Rightarrow> int \<Rightarrow> bool"
  HasVariableOutputFrameRate :: "source \<Rightarrow> bool"
  HM_swr_convert :: "nat list \<Rightarrow> int \<Rightarrow> int \<times> nat list list"
  ContainsOnlySilence :: "int \<Rightarrow> nat list \<Rightarrow> bool"
  av_rescale_q :: "int \<Rightarrow> int \<times> int \<Rightarrow> int \<times> int \<Rightarrow> int"
  MEDIA_SOURCE_MUX_INPUT_QUEUE_SIZE_LIMIT :: int
  sourceSelectDevice :: "source \<Rightarrow> string \<Rightarrow> MediaType \<Rightarrow> bool \<Rightarrow> bool \<times> bool"
  sourceCloseGrabDevice :: "source \<Rightarrow> bool"
  newMediaSourceFile :: "string \<Rightarrow> source"

text \<open>
  The two statements at the head of \<^verbatim>\<open>OpenVideoMuxer\<close> and of \<^verbatim>\<open>OpenVideoGrabDevice\<close>
  that bound the frame rate: \<^verbatim>\<open>if (pFps > 29.97) pFps = 29.97; if (pFps < 5) pFps = 5;\<close>. The
  constant \<^verbatim>\<open>29.97\<close> is a \<^verbatim>\<open>double\<close>: the comparison is made with the \<^verbatim>\<open>double\<close> nearest to
  29.97, and the assignment stores the \<^verbatim>\<open>float\<close> nearest to it, which is a little less than
  29.97. No \<^verbatim>\<open>float\<close> lies between the two constants and 29.97.
\<close>

definition double_29_97 :: real where
  "double_29_97 = 1054475631502295 / 35184372088832"

definition float_29_97 :: real where
  "float_29_97 = 15712911 / 524288"

definition clampFps :: "cfloat \<Rightarrow> cfloat" where
  "clampFps pFps =
     (let f1 = (if float_gt pFps double_29_97 then FloatVal float_29_97 else pFps)
      in if float_lt f1 5 then FloatVal 5 else f1)"

text \<open>
  \<^verbatim>\<open>StartEncoder\<close> starts the transcode thread and waits until it runs; the thread begins
  by marking itself needed and by resetting the frame counter and the start time.
  \<^verbatim>\<open>StopEncoder\<close> clears the flag and waits for the thread to end. The model keeps the
  effect on the members. \<^verbatim>\<open>MarkOpenGrabDeviceSuccessful\<close> of the base class sets the
  opened flag.
\<close>

definition StartEncoder :: "muxer \<Rightarrow> muxer" where
  "StartEncoder m = m\<lparr>mEncoderThreadNeeded := True, mFrameNumber := 0, mEncoderStartTime := 0\<rparr>"

definition StopEncoder :: "muxer \<Rightarrow> muxer" where
  "StopEncoder m = m\<lparr>mEncoderThreadNeeded := False\<rparr>"

definition MarkOpenGrabDeviceSuccessful :: "muxer \<Rightarrow> muxer" where
  "MarkOpenGrabDeviceSuccessful m = m\<lparr>mMediaSourceOpened := True\<rparr>"

text \<open>
  The frame rate \<^verbatim>\<open>OpenVideoMuxer\<close> settles on before it looks at the opened flag. The
  assignment \<^verbatim>\<open>pFps = mStreamMaxFps\<close> converts an \<^verbatim>\<open>int\<close>; the conversion rounds a value
  beyond \<open>2 ^ 24\<close>, which the clamp that follows replaces by a bound in any case.
\<close>

definition muxerFps :: "'a world_scheme \<Rightarrow> muxer \<Rightarrow> cfloat \<Rightarrow> cfloat" where
  "muxerFps w m pFps =
     (let f1 = (case mMediaSource m of
                  None \<Rightarrow> pFps
                | Some s \<Rightarrow> (if float_ne (GetOutputFrameRate w s) pFps then GetOutputFrameRate w s
                            else pFps));
          f2 = (if mStreamMaxFps m \<noteq> 0 then FloatVal (real_of_int (mStreamMaxFps m)) else f1)
      in clampFps f2)"

definition OpenVideoMuxer :: "'a world_scheme \<Rightarrow> muxer \<Rightarrow> int \<Rightarrow> int \<Rightarrow> cfloat \<Rightarrow> bool \<times> muxer" where
  "OpenVideoMuxer w m0 pResX pResY pFps0 =
     (let pFps = muxerFps w m0 pFps0;
          m1 = m0\<lparr>mMediaType := MEDIA_VIDEO\<rparr>;
          m2 = (if mStreamBitRate m1 = -1 then m1\<lparr>mStreamBitRate := 90 * 1024\<rparr> else m1)
      in if mMediaSourceOpened m2 then (False, m2)
         else
           let m3 = m2\<lparr>mSourceResX := pResX, mSourceResY := pResY,
                       mInputFrameRate := pFps, mOutputFrameRate := pFps\<rparr>
           in if \<not> avcodec_find_encoder w (mStreamCodecId m3) then (False, LOG LogNoFittingCodec m3)
              else if \<not> avcodec_get_context_defaults3 w (mStreamCodecId m3)
                then (False, LOG LogContextDefaultsFailed m3)
              else
                let (cx, cy) =
                      (if (mRequestedStreamingResX m3 = -1 \<or> mRequestedStreamingResY m3 = -1)
                          \<and> mMediaSource m3 \<noteq> None
                       then GetVideoSourceResolution w (the (mMediaSource m3))
                              (mCurrentStreamingResX m3, mCurrentStreamingResY m3)
                       else (mRequestedStreamingResX m3, mRequestedStreamingResY m3));
                    (vx, vy) = ValidateVideoResolutionForEncoderCodec cx cy (mStreamCodecId m3);
                    m4 = m3\<lparr>mCurrentStreamingResX := vx, mCurrentStreamingResY := vy\<rparr>
                in if HM_avcodec_open w (mStreamCodecId m4) True
                   then (True, MarkOpenGrabDeviceSuccessful
                                 ((StartEncoder m4)\<lparr>mStreamMaxFps_LastFrame_Timestamp := GetTimeStamp w\<rparr>))
                   else
                     let m5 = LOG LogCodecOpenRetry m4
                     in if HM_avcodec_open w (mStreamCodecId m5) False
                        then (True, MarkOpenGrabDeviceSuccessful
                                      ((StartEncoder m5)\<lparr>mStreamMaxFps_LastFrame_Timestamp := GetTimeStamp w\<rparr>))
                        else (False, LOG LogCodecOpenFailed m5))"

definition audioOutputSettings :: "AVCodecID \<Rightarrow> int \<Rightarrow> int \<Rightarrow> int \<times> int \<times> AVSampleFormat" where
  "audioOutputSettings c pSampleRate pChannels =
     (case c of
        AV_CODEC_ID_ADPCM_G722 \<Rightarrow> (1, 16000, AV_SAMPLE_FMT_S16)
      | AV_CODEC_ID_AMR_NB \<Rightarrow> (1, 8000, AV_SAMPLE_FMT_S16)
      | AV_CODEC_ID_GSM \<Rightarrow> (1, 8000, AV_SAMPLE_FMT_S16)
      | AV_CODEC_ID_PCM_ALAW \<Rightarrow> (1, 8000, AV_SAMPLE_FMT_S16)
      | AV_CODEC_ID_PCM_MULAW \<Rightarrow> (1, 8000, AV_SAMPLE_FMT_S16)
      | AV_CODEC_ID_PCM_S16BE \<Rightarrow> (2, 44100, AV_SAMPLE_FMT_S16)
      | AV_CODEC_ID_MP3 \<Rightarrow> (pChannels, pSampleRate, AV_SAMPLE_FMT_S16P)
      | _ \<Rightarrow> (2, 44100, AV_SAMPLE_FMT_S16))"

definition OpenAudioMuxer :: "'a world_scheme \<Rightarrow> muxer \<Rightarrow> int \<Rightarrow> int \<Rightarrow> bool \<times> muxer" where
  "OpenAudioMuxer w m0 pSampleRate pChannels =
     (let m1 = m0\<lparr>mMediaType := MEDIA_AUDIO\<rparr>;
          m2 = (if mStreamBitRate m1 = -1 then m1\<lparr>mStreamBitRate := 256 * 1024\<rparr> else m1);
          m3 = m2\<lparr>mInputAudioChannels := pChannels, mInputAudioSampleRate := pSampleRate\<rparr>
      in if mMediaSourceOpened m3 then (False, m3)
         else if \<not> avcodec_find_encoder w (mStreamCodecId m3) then (False, LOG LogNoFittingCodec m3)
         else if \<not> avcodec_get_context_defaults3 w (mStreamCodecId m3)
           then (False, LOG LogContextDefaultsFailed m3)
         else
           let (ch, rate, fmt) = audioOutputSettings (mStreamCodecId m3) pSampleRate pChannels;
               m4 = m3\<lparr>mOutputAudioChannels := ch, mOutputAudioSampleRate := rate\<rparr>
           in if \<not> HM_avcodec_open w (mStreamCodecId m4) False then (False, LOG LogCodecOpenFailed m4)
              else
                let fs = (if encoder_frame_size w (mStreamCodecId m4) < 32
                          then MEDIA_SOURCE_SAMPLES_PER_BUFFER w
                          else encoder_frame_size w (mStreamCodecId m4));
                    m5 = m4\<lparr>frame_size := fs, mOutputAudioFormat := fmt,
                            mOutputFrameRate := FloatVal (real_of_int rate / real_of_int fs)\<rparr>
                in (True, MarkOpenGrabDeviceSuccessful (StartEncoder m5)))"

definition CloseMuxer :: "muxer \<Rightarrow> bool \<times> muxer" where
  "CloseMuxer m =
     (let (tResult, m1) =
            (if mMediaSourceOpened m then (True, StopEncoder (m\<lparr>mMediaSourceOpened := False\<rparr>))
             else (False, LOG LogMuxerNotOpened m))
      in (tResult, m1\<lparr>mFrameNumber := 0, mRelayingSkipAudioSilenceSkippedChunks := 0\<rparr>))"

text \<open>
  \<^verbatim>\<open>Reset(enum MediaType pMediaType)\<close>: close the muxer and open it again for the media
  type of the session.
\<close>

definition Reset :: "'a world_scheme \<Rightarrow> muxer \<Rightarrow> MediaType \<Rightarrow> bool \<times> muxer" where
  "Reset w m pMediaType =
     (let tMediaType = (if pMediaType = MEDIA_UNKNOWN then mMediaType m else pMediaType);
          m1 = snd (CloseMuxer m)
      in case tMediaType of
           MEDIA_VIDEO \<Rightarrow> OpenVideoMuxer w m1 (mSourceResX m1) (mSourceResY m1) (mInputFrameRate m1)
         | MEDIA_AUDIO \<Rightarrow> OpenAudioMuxer w m1 (mInputAudioSampleRate m1) (mInputAudioChannels m1)
         | MEDIA_UNKNOWN \<Rightarrow> (False, LOG LogMediaTypeUnknown m1))"

subsection \<open>The preference setter\<close>

definition IsOutputCodecSupported :: "'a env_scheme \<Rightarrow> muxer \<Rightarrow> string \<Rightarrow> bool \<times> muxer" where
  "IsOutputCodecSupported e m pStreamCodec =
     (let tStreamCodecId = GetCodecIDFromGuiName e pStreamCodec
      in if GetGuiNameFromCodecID e tStreamCodecId = pStreamCodec
         then (if avcodec_find_encoder e tStreamCodecId then (True, m)
               else (False, LOG (LogEncoderNotFound pStreamCodec) m))
         else (False, m))"

text \<open>
  The resolution block of the setter: a concrete request (neither value is -1) goes through
  the validator, and a change is logged.
\<close>

definition validateRequestedResolution :: "muxer \<Rightarrow> AVCodecID \<Rightarrow> int \<Rightarrow> int \<Rightarrow> (int \<times> int) \<times> muxer" where
  "validateRequestedResolution m tStreamCodecId pResX pResY =
     (if pResX \<noteq> -1 \<and> pResY \<noteq> -1
      then
        let (tResX, tResY) = ValidateVideoResolutionForEncoderCodec pResX pResY tStreamCodecId
        in if tResX \<noteq> pResX \<or> tResY \<noteq> pResY
           then ((tResX, tResY), LOG (LogResolutionChanged pResX pResY tResX tResY) m)
           else ((pResX, pResY), m)
      else ((pResX, pResY), m))"

text \<open>The comparison that decides whether something has changed.\<close>

definition preferencesDiffer :: "muxer \<Rightarrow> AVCodecID \<Rightarrow> int \<Rightarrow> int \<Rightarrow> int \<Rightarrow> int \<Rightarrow> int \<Rightarrow> int \<Rightarrow> bool" where
  "preferencesDiffer m tStreamCodecId pMaxFps pMediaStreamQuality pBitRate pMaxPacketSize pResX pResY \<longleftrightarrow>
     mStreamCodecId m \<noteq> tStreamCodecId \<or>
     mStreamMaxFps m \<noteq> pMaxFps \<or>
     mStreamQuality m \<noteq> pMediaStreamQuality \<or>
     mStreamBitRate m \<noteq> pBitRate \<or>
     mStreamMaxPacketSize m \<noteq> pMaxPacketSize \<or>
     mCurrentStreamingResX m \<noteq> pResX \<or> mCurrentStreamingResY m \<noteq> pResY"

text \<open>The assignments of the branch taken when something has changed.\<close>

definition storePreferences :: "muxer \<Rightarrow> AVCodecID \<Rightarrow> int \<Rightarrow> int \<Rightarrow> int \<Rightarrow> int \<Rightarrow> int \<Rightarrow> int \<Rightarrow> muxer" where
  "storePreferences m tStreamCodecId pMaxFps pMediaStreamQuality pBitRate pMaxPacketSize pResX pResY =
     (LOG LogSettingNewPreferences m)
       \<lparr> mStreamMaxFps := pMaxFps,
         mStreamCodecId := tStreamCodecId,
         mStreamMaxPacketSize := pMaxPacketSize,
         mStreamQuality := pMediaStreamQuality,
         mStreamBitRate := pBitRate,
         mRequestedStreamingResX := pResX,
         mRequestedStreamingResY := pResY \<rparr>"

text \<open>
  \<^verbatim>\<open>SetOutputStreamPreferences\<close>. The call \<^verbatim>\<open>Reset()\<close> takes its default argument from
  the class declaration, which is not part of the modelled file; with \<^verbatim>\<open>MEDIA_UNKNOWN\<close>
  the reset keeps the media type of the session.
\<close>

definition SetOutputStreamPreferences ::
  "'a world_scheme \<Rightarrow> muxer \<Rightarrow> string \<Rightarrow> int \<Rightarrow> int \<Rightarrow> int \<Rightarrow> bool \<Rightarrow> int \<Rightarrow> int \<Rightarrow> int \<Rightarrow> bool \<times> muxer" where
  "SetOutputStreamPreferences w m pStreamCodec pMediaStreamQuality pBitRate pMaxPacketSize0 pDoReset pResX0 pResY0 pMaxFps =
     (let tStreamCodecId = GetCodecIDFromGuiName w pStreamCodec;
          (tSupported, m1) = IsOutputCodecSupported w m pStreamCodec;
          m2 = (if \<not> tSupported then LOG (LogUnsupportedCodec pStreamCodec) m1 else m1);
          pMaxPacketSize = adjustMaxPacketSize w tStreamCodecId pMaxPacketSize0;
          ((pResX, pResY), m3) = validateRequestedResolution m2 tStreamCodecId pResX0 pResY0
      in if preferencesDiffer m3 tStreamCodecId pMaxFps pMediaStreamQuality pBitRate pMaxPacketSize pResX pResY
         then
           let m4 = storePreferences m3 tStreamCodecId pMaxFps pMediaStreamQuality pBitRate pMaxPacketSize pResX pResY
           in if pDoReset \<and> mMediaSourceOpened m4
              then (True, snd (Reset w (LOG LogDoReset m4) MEDIA_UNKNOWN))
              else (True, m4)
         else (False, LOG LogNoSettingsChanged m3))"

text \<open>
  A concrete world for evaluating the model: the codec names of the user interface for the
  codecs used in the examples, an IPv6 header of 40 bytes, a TCP header of 20 bytes, 4 bytes
  of fragment header, an RTP header bound of 16 bytes, a fragment buffer of 64 KiB, and a
  codec engine that has exactly the encoders listed; a source with a variable output frame
  rate, a resampler that hands the input through, a silence detector that compares every
  byte with the threshold, and an input queue limit of 16; every source but source 0
  accepts the device asked for.
\<close>

definition guiCodecName :: "AVCodecID \<Rightarrow> string" where
  "guiCodecName c =
     (case c of
        AV_CODEC_ID_H261 \<Rightarrow> ''H.261''
      | AV_CODEC_ID_H263 \<Rightarrow> ''H.263''
      | AV_CODEC_ID_H264 \<Rightarrow> ''H.264''
      | AV_CODEC_ID_MPEG4 \<Rightarrow> ''MPEG4''
      | AV_CODEC_ID_MP3 \<Rightarrow> ''MP3''
      | _ \<Rightarrow> [])"

definition guiCodecId :: "string \<Rightarrow> AVCodecID" where
  "guiCodecId n =
     (if n = ''H.261'' then AV_CODEC_ID_H261
      else if n = ''H.263'' then AV_CODEC_ID_H263
      else if n = ''H.264'' then AV_CODEC_ID_H264
      else if n = ''MPEG4'' then AV_CODEC_ID_MPEG4
      else if n = ''MP3'' then AV_CODEC_ID_MP3
      else AV_CODEC_ID_NONE)"

definition sampleWorld :: "AVCodecID list \<Rightarrow> world" where
  "sampleWorld encoders =
     \<lparr> GetCodecIDFromGuiName = guiCodecId,
       GetGuiNameFromCodecID = guiCodecName,
       avcodec_find_encoder = (\<lambda>c. c \<in> set encoders),
       IP6_HEADER_SIZE = 40,
       IP_OPTIONS_SIZE = 0,
       TCP_HEADER_SIZE = 20,
       TCP_FRAGMENT_HEADER_SIZE = 4,
       GetHeaderSizeMax = (\<lambda>c. 16),
       MEDIA_SOURCE_MEM_FRAGMENT_BUFFER_SIZE = 65536,
       GetOutputFrameRate = (\<lambda>s. FloatVal 30),
       GetInputFrameRate = (\<lambda>s. FloatVal 30),
       GetVideoSourceResolution = (\<lambda>s r. (640, 480)),
       avcodec_get_context_defaults3 = (\<lambda>c. True),
       HM_avcodec_open = (\<lambda>c withOptions. True),
       encoder_frame_size = (\<lambda>c. 1024),
       MEDIA_SOURCE_SAMPLES_PER_BUFFER = 1024,
       GetTimeStamp = 0,
       sourceOpenVideoGrabDevice = (\<lambda>s x y f. True),
       sourceOpenAudioGrabDevice = (\<lambda>s r c. True),
       HasVariableOutputFrameRate = (\<lambda>s. True),
       HM_swr_convert = (\<lambda>buf n. (n, [buf])),
       ContainsOnlySilence = (\<lambda>threshold buf. \<forall>b \<in> set buf. int b \<le> threshold),
       av_rescale_q = (\<lambda>a bq cq. a),
       MEDIA_SOURCE_MUX_INPUT_QUEUE_SIZE_LIMIT = 16,
       sourceSelectDevice = (\<lambda>s dev mt isNew. (s \<noteq> 0, True)),
       sourceCloseGrabDevice = (\<lambda>s. True),
       newMediaSourceFile = (\<lambda>name. 100) \<rparr>"

text \<open>
  What the resolution block of the setter hands on: the validated request when a concrete
  resolution was asked for, the request itself otherwise.
\<close>

definition validatedRequest :: "AVCodecID \<Rightarrow> int \<Rightarrow> int \<Rightarrow> int \<times> int" where
  "validatedRequest c pResX pResY =
     (if pResX \<noteq> -1 \<and> pResY \<noteq> -1 then ValidateVideoResolutionForEncoderCodec pResX pResY c
      else (pResX, pResY))"

text \<open>The lines the setter logs before it compares the preferences.\<close>

definition setterLogLines :: "'a world_scheme \<Rightarrow> string \<Rightarrow> int \<Rightarrow> int \<Rightarrow> log_event list" where
  "setterLogLines w c rx ry =
     (if GetGuiNameFromCodecID w (GetCodecIDFromGuiName w c) = c
         \<and> \<not> avcodec_find_encoder w (GetCodecIDFromGuiName w c)
      then [LogEncoderNotFound c] else [])
     @ (if \<not> (GetGuiNameFromCodecID w (GetCodecIDFromGuiName w c) = c
               \<and> avcodec_find_encoder w (GetCodecIDFromGuiName w c))
        then [LogUnsupportedCodec c] else [])
     @ (if validatedRequest (GetCodecIDFromGuiName w c) rx ry \<noteq> (rx, ry)
        then [LogResolutionChanged rx ry (fst (validatedRequest (GetCodecIDFromGuiName w c) rx ry))
                (snd (validatedRequest (GetCodecIDFromGuiName w c) rx ry))]
        else [])"
subsection \<open>The frame-rate gate\<close>

text \<open>
  \<^verbatim>\<open>BelowMaxFps(int pFrameNumber)\<close>. The frame number is used in a debug line only. The
  clock value is \<open>GetTimeStamp\<close> of the world of the call.
\<close>

definition BelowMaxFps :: "'a world_scheme \<Rightarrow> muxer \<Rightarrow> int \<Rightarrow> bool \<times> muxer" where
  "BelowMaxFps w m pFrameNumber =
     (let tCurrentTime = GetTimeStamp w
      in if mStreamMaxFps m \<noteq> 0
         then
           let tTimeDiffToLastFrame = tCurrentTime - mStreamMaxFps_LastFrame_Timestamp m;
               tTimeDiffTreshold = (1000 * 1000) sdiv mStreamMaxFps m;
               tTimeDiffForNextFrame = tTimeDiffToLastFrame - tTimeDiffTreshold
           in if tTimeDiffForNextFrame > 0
              then (True, m\<lparr>mStreamMaxFps_LastFrame_Timestamp := tCurrentTime - tTimeDiffForNextFrame\<rparr>)
              else (False, m)
         else (True, m\<lparr>mStreamMaxFps_LastFrame_Timestamp := tCurrentTime\<rparr>))"

text \<open>
  The gate driven with a list of clock values, one call per value, as \<^verbatim>\<open>GrabChunk\<close> calls
  it once per grabbed chunk; the result counts the admitted calls.
\<close>

fun driveGate :: "'a world_scheme \<Rightarrow> muxer \<Rightarrow> int list \<Rightarrow> nat \<times> muxer" where
  "driveGate w m [] = (0, m)"
| "driveGate w m (t # ts) =
     (let (admit, m1) = BelowMaxFps (w\<lparr>GetTimeStamp := t\<rparr>) m 0;
          (n, m2) = driveGate w m1 ts
      in ((if admit then 1 else 0) + n, m2))"

text \<open>For evaluation: a muxer limited to 10 frames per second whose gate reference is 0.\<close>

definition gateMuxer :: muxer where
  "gateMuxer = (newMuxer None)\<lparr>mStreamMaxFps := 10, mStreamMaxFps_LastFrame_Timestamp := 0\<rparr>"
subsection \<open>The input queue\<close>

text \<open>
  Modelled from the spec: the class \<^verbatim>\<open>MediaFifo\<close> of the input queue is not part of the
  modelled file; only its calls are. Section 4.3 of the specification describes it as a
  bounded queue with \<open>write\<close>, \<open>readExclusive\<close>, \<open>readExclusiveFinished\<close>, \<open>usage\<close> and
  \<open>clear\<close>, where only one read ticket may be outstanding at a time. The model keeps the
  waiting entries, oldest first, and the entry of the outstanding ticket. A read with no
  waiting entry blocks: the model gives \<open>None\<close>.
\<close>

record fifo_entry =
  entryData :: "nat list"
  entrySize :: int
  entryTimestamp :: int

record MediaFifo =
  pending :: "fifo_entry list"
  outstanding :: "fifo_entry option"

definition ReadFifoExclusive :: "MediaFifo \<Rightarrow> (int \<times> fifo_entry \<times> MediaFifo) option" where
  \<comment> \<open>Modelled from the spec: \<open>readExclusive() -> (ticket, payload, length, timestamp)\<close>.\<close>
  "ReadFifoExclusive q =
     (case outstanding q of
        Some held \<Rightarrow> None
      | None \<Rightarrow>
          (case pending q of
             [] \<Rightarrow> None
           | e # es \<Rightarrow> Some (0, e, q\<lparr>pending := es, outstanding := Some e\<rparr>)))"

definition ReadFifoExclusiveFinished :: "int \<Rightarrow> MediaFifo \<Rightarrow> MediaFifo" where
  \<comment> \<open>Modelled from the spec: \<open>readExclusiveFinished(ticket)\<close>.\<close>
  "ReadFifoExclusiveFinished ticket q = q\<lparr>outstanding := None\<rparr>"

definition GetUsage :: "MediaFifo \<Rightarrow> int" where
  \<comment> \<open>Modelled from the spec: \<open>usage() -> int\<close>, the number of waiting entries.\<close>
  "GetUsage q = int (length (pending q))"

definition ClearFifo :: "MediaFifo \<Rightarrow> MediaFifo" where
  \<comment> \<open>Modelled from the spec: \<open>clear()\<close> drops every waiting entry.\<close>
  "ClearFifo q = q\<lparr>pending := []\<rparr>"

subsection \<open>The transcode thread\<close>

text \<open>
  What \<^verbatim>\<open>Run\<close> works on besides the members of the muxer record: the number of registered
  sinks, the input queue, the locals of \<^verbatim>\<open>Run\<close> that live across loop passes, the resampler
  members, and what the thread hands to its collaborators: the synchronisation markers
  relayed to the sinks and the frames given to the encoder.
\<close>

datatype encoded_frame = VideoFrame int "nat list" | AudioFrame int "nat list"

record transcoder =
  mux :: muxer
  mMediaSinks :: nat
  mEncoderFifo :: "MediaFifo option"
  tLastInputFrameTimestamp :: int
  tOutputFrameTimestamp :: int
  tLastVideoEncoderFrameTimestamp :: int
  mAudioResampleContext :: bool
  mInputAudioFormat :: AVSampleFormat
  mResampleFifo :: "nat \<Rightarrow> nat list"
  mAudioSilenceThreshold :: int
  time_base :: "int \<times> int"
  relayedSync :: "(int \<times> int) list"
  encodedFrames :: "encoded_frame list"

text \<open>
  The ways a call does not come back: it dereferences a null source pointer, divides by
  zero, blocks on an empty queue for ever, never leaves the slice loop, or dereferences the
  end iterator of the source list.
\<close>

datatype run_error =
  NullMediaSource | DivisionByZero | QueueBlocks | SliceLoopForever | IteratorPastEnd

text \<open>The state of \<^verbatim>\<open>Run\<close> when it enters its main loop, with the queue it created.\<close>

definition startTranscoder :: "muxer \<Rightarrow> nat \<Rightarrow> fifo_entry list \<Rightarrow> transcoder" where
  "startTranscoder m sinks entries =
     \<lparr> mux = m\<lparr>mEncoderThreadNeeded := True, mFrameNumber := 0\<rparr>,
       mMediaSinks = sinks,
       mEncoderFifo = Some \<lparr>pending = entries, outstanding = None\<rparr>,
       tLastInputFrameTimestamp = -1,
       tOutputFrameTimestamp = 0,
       tLastVideoEncoderFrameTimestamp = 0,
       mAudioResampleContext = True,
       mInputAudioFormat = AV_SAMPLE_FMT_S16,
       mResampleFifo = (\<lambda>i. []),
       mAudioSilenceThreshold = 0,
       time_base = (1, 44100),
       relayedSync = [],
       encodedFrames = [] \<rparr>"

text \<open>
  \<^verbatim>\<open>CalculateEncoderPts(int pFrameNumber)\<close>. The division by the output frame rate is a
  \<^verbatim>\<open>float\<close> division whose result is converted to \<^verbatim>\<open>int64_t\<close>, which truncates.
  \<^verbatim>\<open>GetOutputFrameRate()\<close> of the base class reads the member \<^verbatim>\<open>mOutputFrameRate\<close>. With a
  rate of zero or not-a-number the quotient is infinite or not-a-number; C++ leaves the
  conversion of such a value undefined, and the model takes what the conversion instruction
  of x86-64 delivers, the least \<^verbatim>\<open>int64_t\<close>.
\<close>

definition truncToInt :: "real \<Rightarrow> int" where
  "truncToInt x = (if 0 \<le> x then \<lfloor>x\<rfloor> else \<lceil>x\<rceil>)"

definition CalculateEncoderPts :: "muxer \<Rightarrow> int \<Rightarrow> int" where
  "CalculateEncoderPts m pFrameNumber =
     (if mMediaType m = MEDIA_VIDEO \<or> mStreamCodecId m = AV_CODEC_ID_MP3
      then (case mOutputFrameRate m of
              FloatVal r \<Rightarrow>
                if r = 0 then - 9223372036854775808
                else truncToInt (real_of_int (pFrameNumber * 1000) / r)
            | FloatNaN \<Rightarrow> - 9223372036854775808)
      else pFrameNumber * frame_size m)"

text \<open>The video branch of the loop body, for one entry read from the queue.\<close>

definition encodeVideoFrame :: "'a world_scheme \<Rightarrow> transcoder \<Rightarrow> fifo_entry \<Rightarrow> run_error + transcoder" where
  "encodeVideoFrame w t e =
     (case mMediaSource (mux t) of
        None \<Rightarrow> Inl NullMediaSource
      | Some s \<Rightarrow>
          let tInputFrameTimestamp = entryTimestamp e;
              m = mux t;
              tCalculated = CalculateEncoderPts m (mFrameNumber m);
              m1 = (if HasVariableOutputFrameRate w s \<and> mEncoderStartTime m = 0
                    then LOG LogEncoderStartTimeInvalid (m\<lparr>mEncoderStartTime := tInputFrameTimestamp\<rparr>)
                    else m);
              tComputed = (if HasVariableOutputFrameRate w s
                           then (tInputFrameTimestamp - mEncoderStartTime m1) sdiv 1000
                           else tCalculated);
              tEncoderOutputFrameTimestamp =
                (if tLastVideoEncoderFrameTimestamp t \<noteq> 0
                    \<and> tComputed \<le> tLastVideoEncoderFrameTimestamp t
                 then tLastVideoEncoderFrameTimestamp t + 1
                 else tComputed)
          in Inr (t\<lparr> tLastVideoEncoderFrameTimestamp := tEncoderOutputFrameTimestamp,
                     tOutputFrameTimestamp := tInputFrameTimestamp,
                     relayedSync := relayedSync t @ [(tInputFrameTimestamp, tEncoderOutputFrameTimestamp)],
                     encodedFrames := encodedFrames t @ [VideoFrame tEncoderOutputFrameTimestamp (entryData e)],
                     mux := m1\<lparr>mFrameNumber := mFrameNumber m1 + 1\<rparr> \<rparr>))"

text \<open>
  The audio branch. A resample FIFO of the codec engine is the list of the bytes it holds:
  writing appends, reading takes from the front. Both sample formats the muxer uses have
  two bytes per sample; \<^verbatim>\<open>AV_SAMPLE_FMT_S16P\<close> is the planar one.
\<close>

definition av_get_bytes_per_sample :: "AVSampleFormat \<Rightarrow> int" where
  "av_get_bytes_per_sample fmt = 2"

definition av_sample_fmt_is_planar :: "AVSampleFormat \<Rightarrow> bool" where
  "av_sample_fmt_is_planar fmt \<longleftrightarrow> fmt = AV_SAMPLE_FMT_S16P"

definition tReadFifoSizePerChannel :: "muxer \<Rightarrow> int" where
  "tReadFifoSizePerChannel m = frame_size m * av_get_bytes_per_sample (mOutputAudioFormat m)"

text \<open>The condition of the slice loop: a full slice waits in the resample FIFOs.\<close>

definition sliceAvailable :: "transcoder \<Rightarrow> bool" where
  "sliceAvailable t \<longleftrightarrow>
     (let m = mux t; fifoSize = int (length (mResampleFifo t 0))
      in (av_sample_fmt_is_planar (mOutputAudioFormat m) \<and> fifoSize \<ge> tReadFifoSizePerChannel m)
         \<or> (\<not> av_sample_fmt_is_planar (mOutputAudioFormat m)
             \<and> fifoSize \<ge> tReadFifoSizePerChannel m * mOutputAudioChannels m))"

text \<open>
  One pass of the inner \<^verbatim>\<open>for\<close> loop of the slice loop, for channel \<open>i\<close>: read the bytes
  of the channel from its FIFO and look at them. The triple holds the FIFOs, the output
  buffer filled so far and the flag \<^verbatim>\<open>tSilenceAudioFrame\<close>.
\<close>

definition readChannel ::
  "'a world_scheme \<Rightarrow> muxer \<Rightarrow> int \<Rightarrow> nat \<Rightarrow> (nat \<Rightarrow> nat list) \<times> nat list \<times> bool
     \<Rightarrow> (nat \<Rightarrow> nat list) \<times> nat list \<times> bool" where
  "readChannel w m threshold i st =
     (case st of (fifos, tOutputBuffer, tSilenceAudioFrame) \<Rightarrow>
        let tFifoIndex = (if \<not> av_sample_fmt_is_planar (mOutputAudioFormat m) then 0 else i);
            n = nat (tReadFifoSizePerChannel m);
            buf = take n (fifos tFifoIndex);
            fifos' = fifos(tFifoIndex := drop n (fifos tFifoIndex))
        in (fifos', tOutputBuffer @ buf,
            if \<not> mRelayingSkipAudioSilence m \<or> \<not> ContainsOnlySilence w threshold buf
            then False else tSilenceAudioFrame))"

definition readChannels :: "'a world_scheme \<Rightarrow> transcoder \<Rightarrow> (nat \<Rightarrow> nat list) \<times> nat list \<times> bool" where
  "readChannels w t =
     fold (readChannel w (mux t) (mAudioSilenceThreshold t))
       [0 ..< nat (mOutputAudioChannels (mux t))] (mResampleFifo t, [], True)"

text \<open>The body of the slice loop: read one slice, then encode it or count it as skipped.\<close>

definition encodeOrSkipSlice :: "'a world_scheme \<Rightarrow> transcoder \<Rightarrow> transcoder" where
  "encodeOrSkipSlice w t =
     (case readChannels w t of (fifos, tOutputBuffer, tSilenceAudioFrame) \<Rightarrow>
        let m = mux t;
            t1 = t\<lparr>mResampleFifo := fifos\<rparr>
        in if \<not> tSilenceAudioFrame
           then
             let tEncoderOutputFrameTimestamp = CalculateEncoderPts m (mFrameNumber m);
                 tCurPts = (if mStreamCodecId m = AV_CODEC_ID_MP3 then tEncoderOutputFrameTimestamp
                            else av_rescale_q w tEncoderOutputFrameTimestamp
                                   (1, mOutputAudioSampleRate m) (time_base t))
             in t1\<lparr> relayedSync := relayedSync t @ [(tOutputFrameTimestamp t, tCurPts)],
                    tOutputFrameTimestamp :=
                      tOutputFrameTimestamp t + (1000 * 1000 * frame_size m) sdiv mOutputAudioSampleRate m,
                    encodedFrames := encodedFrames t @ [AudioFrame tCurPts tOutputBuffer],
                    mux := m\<lparr>mFrameNumber := mFrameNumber m + 1\<rparr> \<rparr>
           else
             t1\<lparr> mux := m\<lparr>mRelayingSkipAudioSilenceSkippedChunks :=
                              mRelayingSkipAudioSilenceSkippedChunks m + 1\<rparr> \<rparr>)"

text \<open>
  The slice loop. It runs for ever when a slice has no bytes (a frame size or a channel count
  of zero leaves the FIFO as it is), so it is a partial function: \<open>None\<close> is the run that
  never leaves the loop.
\<close>

partial_function (option) drainResampleFifo :: "'a world_scheme \<Rightarrow> transcoder \<Rightarrow> transcoder option" where
  "drainResampleFifo w t =
     (if sliceAvailable t then drainResampleFifo w (encodeOrSkipSlice w t) else Some t)"

declare drainResampleFifo.simps [code]

text \<open>
  One pass of the \<^verbatim>\<open>for\<close> loop that buffers the (resampled) input, for channel \<open>i\<close>. Bytes
  the resampler did not deliver are not there to be written.
\<close>

definition writeChannel ::
  "bool \<Rightarrow> nat list list \<Rightarrow> int \<Rightarrow> nat \<Rightarrow> (nat \<Rightarrow> nat list) \<Rightarrow> (nat \<Rightarrow> nat list)" where
  "writeChannel planar planes tWrittenFifoSizePerChannel i fifos =
     (let plane = (\<lambda>k. if k < length planes then planes ! k else []);
          n = nat tWrittenFifoSizePerChannel;
          tFifoIndex = (if \<not> planar then 0 else i);
          tInputBuffer = (if \<not> planar then drop (i * n) (plane 0) else plane i)
      in fifos(tFifoIndex := fifos tFifoIndex @ take n tInputBuffer))"

definition encodeAudioChunk :: "'a world_scheme \<Rightarrow> transcoder \<Rightarrow> fifo_entry \<Rightarrow> run_error + transcoder" where
  "encodeAudioChunk w t e =
     (let m = mux t;
          tInputFrameTimestamp = entryTimestamp e;
          tOutputAudioBytesPerSample = av_get_bytes_per_sample (mOutputAudioFormat m);
          tInputAudioBytesPerSample = av_get_bytes_per_sample (mInputAudioFormat t);
          planar = av_sample_fmt_is_planar (mOutputAudioFormat m)
      in if tInputAudioBytesPerSample * mInputAudioChannels m = 0 then Inl DivisionByZero
         else
           let tInputSamplesPerChannel = entrySize e sdiv (tInputAudioBytesPerSample * mInputAudioChannels m);
               (tResamplingOutputSamples, planes) =
                  (if mAudioResampleContext t then HM_swr_convert w (entryData e) tInputSamplesPerChannel
                   else (0, [entryData e]));
               m1 = (if mAudioResampleContext t \<and> tResamplingOutputSamples \<le> 0
                     then LOG (LogResampledSamplesInvalid tResamplingOutputSamples) m else m);
               tWrittenFifoSizePerChannel = tResamplingOutputSamples * tOutputAudioBytesPerSample;
               tAlready0 = int (length (mResampleFifo t 0)) sdiv tOutputAudioBytesPerSample
           in if \<not> planar \<and> mOutputAudioChannels m1 = 0 then Inl DivisionByZero
              else if mOutputAudioSampleRate m1 = 0 then Inl DivisionByZero
              else
                let tAlreadyAvailableSamplesPerChannel =
                      (if \<not> planar then tAlready0 sdiv mOutputAudioChannels m1 else tAlready0);
                    tOutputFrameTimestampOffset =
                      (1000 * 1000 * tAlreadyAvailableSamplesPerChannel) sdiv mOutputAudioSampleRate m1;
                    fifos = fold (writeChannel planar planes tWrittenFifoSizePerChannel)
                              [0 ..< nat (mOutputAudioChannels m1)] (mResampleFifo t);
                    t1 = t\<lparr> mux := m1,
                            tOutputFrameTimestamp := tInputFrameTimestamp - tOutputFrameTimestampOffset,
                            mResampleFifo := fifos \<rparr>
                in (case drainResampleFifo w t1 of
                      None \<Rightarrow> Inl SliceLoopForever
                    | Some t2 \<Rightarrow> Inr t2))"

text \<open>
  One pass of the main loop of \<^verbatim>\<open>Run\<close>: read an entry, warn about a timestamp that went
  back, transcode the entry when it has a payload and the thread is still needed, finish the
  read ticket, and clear the queue when it is near overload. Without a queue the pass only
  sleeps.
\<close>

definition transcodeEntry :: "'a world_scheme \<Rightarrow> transcoder \<Rightarrow> fifo_entry \<Rightarrow> run_error + transcoder" where
  "transcodeEntry w t e =
     (if entrySize e > 0 \<and> mEncoderThreadNeeded (mux t)
      then
        if mStreamActivated (mux t) \<and> mMediaSinks t \<noteq> 0
        then (case mMediaType (mux t) of
                MEDIA_VIDEO \<Rightarrow> encodeVideoFrame w t e
              | MEDIA_AUDIO \<Rightarrow> encodeAudioChunk w t e
              | MEDIA_UNKNOWN \<Rightarrow> Inr (t\<lparr>mux := LOG LogMediaTypeUnknown (mux t)\<rparr>))
        else Inr (t\<lparr>mux := LOG LogSkippedTranscoderTask (mux t)\<rparr>)
      else Inr t)"

definition overloadCheck :: "'a world_scheme \<Rightarrow> transcoder \<Rightarrow> MediaFifo \<Rightarrow> transcoder" where
  "overloadCheck w t q =
     (if GetUsage q \<ge> MEDIA_SOURCE_MUX_INPUT_QUEUE_SIZE_LIMIT w - 4
      then t\<lparr>mux := LOG LogFifoNearOverload (mux t), mEncoderFifo := Some (ClearFifo q)\<rparr>
      else t\<lparr>mEncoderFifo := Some q\<rparr>)"

definition RunIteration :: "'a world_scheme \<Rightarrow> transcoder \<Rightarrow> run_error + transcoder" where
  "RunIteration w t =
     (case mEncoderFifo t of
        None \<Rightarrow> Inr t
      | Some q \<Rightarrow>
          (case ReadFifoExclusive q of
             None \<Rightarrow> Inl QueueBlocks
           | Some (tFifoEntry, e, q1) \<Rightarrow>
               let tInputFrameTimestamp = entryTimestamp e;
                   t1 = (if tLastInputFrameTimestamp t \<noteq> -1 \<and> tInputFrameTimestamp \<noteq> 0
                            \<and> tInputFrameTimestamp < tLastInputFrameTimestamp t
                         then t\<lparr>mux := LOG (LogInputTimestampTooLow tInputFrameTimestamp
                                               (tLastInputFrameTimestamp t)) (mux t)\<rparr>
                         else t);
                   t2 = t1\<lparr>tLastInputFrameTimestamp := tInputFrameTimestamp, mEncoderFifo := Some q1\<rparr>
               in (case transcodeEntry w t2 e of
                     Inl err \<Rightarrow> Inl err
                   | Inr t3 \<Rightarrow>
                       Inr (overloadCheck w t3
                              (if tFifoEntry \<ge> 0 then ReadFifoExclusiveFinished tFifoEntry q1 else q1)))))"

text \<open>A number of passes of the main loop, stopping at the first pass that does not come back.\<close>

fun RunIterations :: "'a world_scheme \<Rightarrow> nat \<Rightarrow> transcoder \<Rightarrow> run_error + transcoder" where
  "RunIterations w 0 t = Inr t"
| "RunIterations w (Suc n) t =
     (case RunIteration w t of Inl err \<Rightarrow> Inl err | Inr t1 \<Rightarrow> RunIterations w n t1)"


text \<open>
  For evaluation: an open video session on source 0, and two chunks that arrive 400
  microseconds apart.
\<close>

definition videoMuxer :: muxer where
  "videoMuxer = (newMuxer (Some 0))\<lparr>mStreamCodecId := AV_CODEC_ID_H264,
                                     mMediaType := MEDIA_VIDEO, mMediaSourceOpened := True,
                                     mOutputFrameRate := FloatVal 30, mInputFrameRate := FloatVal 30\<rparr>"

definition chunkAt :: "int \<Rightarrow> fifo_entry" where
  "chunkAt ts = \<lparr>entryData = [1, 2, 3, 4], entrySize = 4, entryTimestamp = ts\<rparr>"



subsection \<open>Opening the grab device\<close>

text \<open>
  \<^verbatim>\<open>OpenVideoGrabDevice\<close> and \<^verbatim>\<open>OpenAudioGrabDevice\<close> of the muxer: open the base source
  first, then the muxer. With a base source the result of opening the muxer is dropped.
\<close>

definition OpenVideoGrabDevice :: "'a world_scheme \<Rightarrow> muxer \<Rightarrow> int \<Rightarrow> int \<Rightarrow> cfloat \<Rightarrow> bool \<times> muxer" where
  "OpenVideoGrabDevice w m0 pResX pResY pFps0 =
     (let pFps = clampFps pFps0;
          m1 = m0\<lparr>mMediaType := MEDIA_VIDEO\<rparr>
      in case mMediaSource m1 of
           Some s \<Rightarrow>
             if \<not> sourceOpenVideoGrabDevice w s pResX pResY pFps then (False, m1)
             else
               let m2 = m1\<lparr>mInputFrameRate := GetInputFrameRate w s,
                           mOutputFrameRate := GetOutputFrameRate w s\<rparr>
               in if mMediaSourceOpened m2 then (False, m2)
                  else (True, snd (OpenVideoMuxer w m2 pResX pResY pFps))
         | None \<Rightarrow>
             if mMediaSourceOpened m1 then (False, m1)
             else OpenVideoMuxer w m1 pResX pResY pFps)"

definition OpenAudioGrabDevice :: "'a world_scheme \<Rightarrow> muxer \<Rightarrow> int \<Rightarrow> int \<Rightarrow> bool \<times> muxer" where
  "OpenAudioGrabDevice w m0 pSampleRate pChannels =
     (let m1 = m0\<lparr>mMediaType := MEDIA_AUDIO, mOutputAudioChannels := pChannels,
                  mOutputAudioSampleRate := pSampleRate\<rparr>
      in case mMediaSource m1 of
           Some s \<Rightarrow>
             if \<not> sourceOpenAudioGrabDevice w s pSampleRate pChannels then (False, m1)
             else
               let m2 = m1\<lparr>mInputFrameRate := GetInputFrameRate w s,
                           mOutputFrameRate := GetOutputFrameRate w s\<rparr>
               in if mMediaSourceOpened m2 then (False, m2)
                  else (True, snd (OpenAudioMuxer w m2 pSampleRate pChannels))
         | None \<Rightarrow>
             if mMediaSourceOpened m1 then (False, m1)
             else OpenAudioMuxer w m1 pSampleRate pChannels)"

subsection \<open>The device selector\<close>

text \<open>
  The members the selector works on besides those of the muxer record: the registered
  sources in registration order, the current and the desired device, the stopped flag, and
  the media filters attached to each source.
\<close>

record selector =
  smux :: muxer
  mMediaSources :: "source list"
  mCurrentDevice :: string
  mDesiredDevice :: string
  mGrabbingStopped :: bool
  mMediaFilters :: "source \<Rightarrow> nat list"

definition StopGrabbing :: "selector \<Rightarrow> selector" where
  "StopGrabbing sel = sel\<lparr>mGrabbingStopped := True\<rparr>"

definition CloseGrabDevice :: "'a world_scheme \<Rightarrow> selector \<Rightarrow> bool \<times> selector" where
  "CloseGrabDevice w sel =
     (let m = smux sel;
          (tResult, m1) = (if mMediaSourceOpened m then (True, snd (CloseMuxer m))
                           else (False, LOG LogMuxerNotOpened m));
          tResult2 = (case mMediaSource m1 of
                        Some s \<Rightarrow> sourceCloseGrabDevice w s \<and> tResult
                      | None \<Rightarrow> tResult)
      in (tResult2, sel\<lparr>smux := m1, mGrabbingStopped := False\<rparr>))"

definition RegisterMediaSource :: "source \<Rightarrow> selector \<Rightarrow> bool \<times> selector" where
  "RegisterMediaSource pMediaSource sel =
     (let tFound = (pMediaSource \<in> set (mMediaSources sel));
          sel1 = (if \<not> tFound then sel\<lparr>mMediaSources := mMediaSources sel @ [pMediaSource]\<rparr> else sel);
          sel2 = (if mMediaSource (smux sel1) = None
                  then sel1\<lparr>smux := (smux sel1)\<lparr>mMediaSource := Some pMediaSource\<rparr>\<rparr> else sel1)
      in (\<not> tFound, sel2))"

text \<open>
  The probing loop: ask each registered source in turn, stop at the first that accepts. The
  result holds \<^verbatim>\<open>tResult\<close>, the position of the iterator (the length of the list is the end
  iterator) and \<^verbatim>\<open>pIsNewDevice\<close>.
\<close>

fun probeSources ::
  "'a world_scheme \<Rightarrow> string \<Rightarrow> MediaType \<Rightarrow> source list \<Rightarrow> nat \<Rightarrow> bool \<Rightarrow> bool \<Rightarrow> bool \<times> nat \<times> bool" where
  "probeSources w dev mt [] idx tResult pIsNewDevice = (tResult, idx, pIsNewDevice)"
| "probeSources w dev mt (s # rest) idx tResult pIsNewDevice =
     (case sourceSelectDevice w s dev mt False of
        (r, isNew) \<Rightarrow> if r then (True, idx, isNew) else probeSources w dev mt rest (Suc idx) r isNew)"

text \<open>
  The loop that runs after the newly selected source failed to open and the old source was
  restored: \<^verbatim>\<open>while ((!(tResult = Open...GrabDevice(...))) && (tIt != mMediaSources.end()))\<close>
  with the body \<^verbatim>\<open>tIt++; (*tIt)->SelectDevice(...)\<close>. The body advances the iterator before
  it dereferences it: at the last source that is the end iterator. The active source is not
  assigned in the loop.
\<close>

function reopenLoop ::
  "'a world_scheme \<Rightarrow> (muxer \<Rightarrow> bool \<times> muxer) \<Rightarrow> source list \<Rightarrow> string \<Rightarrow> MediaType
     \<Rightarrow> nat \<Rightarrow> bool \<Rightarrow> muxer \<Rightarrow> run_error + (bool \<times> bool \<times> muxer)" where
  "reopenLoop w openDevice srcs dev mt idx pIsNewDevice m =
     (case openDevice m of
        (tResult, m1) \<Rightarrow>
          if tResult then Inr (True, pIsNewDevice, m1)
          else if idx \<noteq> length srcs
          then
            if Suc idx < length srcs
            then reopenLoop w openDevice srcs dev mt (Suc idx)
                   (snd (sourceSelectDevice w (srcs ! Suc idx) dev mt pIsNewDevice)) m1
            else Inl IteratorPastEnd
          else Inr (False, pIsNewDevice, m1))"
  by pat_completeness auto
termination
  by (relation "measure (\<lambda>(w, openDevice, srcs, dev, mt, idx, pIsNewDevice, m). length srcs - idx)") auto

text \<open>
  The switch to the accepted source at position \<open>idx\<close>: close the open session, make the
  source the active one and open it; when that fails, put the old source back and run the
  loop above.
\<close>

definition switchSource ::
  "'a world_scheme \<Rightarrow> selector \<Rightarrow> string \<Rightarrow> MediaType \<Rightarrow> bool \<Rightarrow> source option \<Rightarrow> nat \<Rightarrow> bool
     \<Rightarrow> run_error + (bool \<times> bool \<times> selector)" where
  "switchSource w sel dev tMediaType tOldMediaSourceOpened tOldMediaSource idx pIsNewDevice =
     (let sel1 = (if tOldMediaSourceOpened then snd (CloseGrabDevice w (StopGrabbing sel)) else sel);
          sel2 = sel1\<lparr>smux := (smux sel1)\<lparr>mMediaSource := Some (mMediaSources sel ! idx)\<rparr>\<rparr>;
          openVideo = (\<lambda>m. OpenVideoGrabDevice w m (mSourceResX m) (mSourceResY m) (mInputFrameRate m));
          openAudio = (\<lambda>m. OpenAudioGrabDevice w m (mInputAudioSampleRate m) (mInputAudioChannels m));
          reopen = (\<lambda>openDevice.
             case openDevice (smux sel2) of
               (ok, m3) \<Rightarrow>
                 if ok then Inr (True, pIsNewDevice, sel2\<lparr>smux := m3\<rparr>)
                 else
                   (case reopenLoop w openDevice (mMediaSources sel) dev tMediaType idx False
                           (LOG LogFailedToOpenNewSource (m3\<lparr>mMediaSource := tOldMediaSource\<rparr>)) of
                      Inl err \<Rightarrow> Inl err
                    | Inr (r, isNew, m4) \<Rightarrow> Inr (r, isNew, sel2\<lparr>smux := m4\<rparr>)))
      in if tOldMediaSourceOpened
         then (case tMediaType of
                 MEDIA_VIDEO \<Rightarrow> reopen openVideo
               | MEDIA_AUDIO \<Rightarrow> reopen openAudio
               | MEDIA_UNKNOWN \<Rightarrow>
                   Inr (True, pIsNewDevice, sel2\<lparr>smux := LOG LogMediaTypeUnknown (smux sel2)\<rparr>))
         else Inr (True, pIsNewDevice, sel2))"

text \<open>
  The end of \<^verbatim>\<open>SelectDevice\<close>: when the active source has changed, the media filters move
  from the old source object to the new one. Both pointers are dereferenced.
\<close>

definition moveMediaFilters ::
  "source option \<Rightarrow> bool \<times> bool \<times> selector \<Rightarrow> run_error + (bool \<times> bool \<times> selector)" where
  "moveMediaFilters tOldMediaSource res =
     (case res of (tResult, pIsNewDevice, sel) \<Rightarrow>
        if mMediaSource (smux sel) \<noteq> tOldMediaSource
        then (case (mMediaSource (smux sel), tOldMediaSource) of
                (Some new, Some old) \<Rightarrow>
                  Inr (tResult, pIsNewDevice,
                       sel\<lparr>mMediaFilters := (mMediaFilters sel)(new := mMediaFilters sel old, old := [])\<rparr>)
              | _ \<Rightarrow> Inl NullMediaSource)
        else Inr (tResult, pIsNewDevice, sel))"

text \<open>
  \<^verbatim>\<open>SelectDevice(std::string pDesiredDevice, enum MediaType pMediaType, bool &pIsNewDevice)\<close>.
  The result holds the returned flag, the final value of \<^verbatim>\<open>pIsNewDevice\<close> and the state.
\<close>

definition SelectDevice ::
  "'a world_scheme \<Rightarrow> selector \<Rightarrow> string \<Rightarrow> MediaType \<Rightarrow> run_error + (bool \<times> bool \<times> selector)" where
  "SelectDevice w sel0 pDesiredDevice pMediaType =
     (let tOldMediaSourceOpened = mMediaSourceOpened (smux sel0);
          tOldMediaSource = mMediaSource (smux sel0);
          tMediaType = (if pMediaType = MEDIA_VIDEO \<or> pMediaType = MEDIA_AUDIO then pMediaType
                        else mMediaType (smux sel0));
          sel1 = sel0\<lparr>smux := (smux sel0)\<lparr>mMediaType := tMediaType\<rparr>, mDesiredDevice := pDesiredDevice\<rparr>
      in if mMediaSources sel1 = []
         then moveMediaFilters tOldMediaSource
                (True, False, sel1\<lparr>smux := LOG LogNoSourceRegistered (smux sel1)\<rparr>)
         else
           let (r1, idx1, isNew1) = probeSources w pDesiredDevice tMediaType (mMediaSources sel1) 0 True False;
               (sel2, r2, idx2, isNew2) =
                 (if \<not> r1 \<and> length pDesiredDevice > 6 \<and> take 6 pDesiredDevice = ''FILE: ''
                  then
                    let sel' = snd (RegisterMediaSource (newMediaSourceFile w (drop 6 pDesiredDevice)) sel1)
                    in (sel', probeSources w pDesiredDevice tMediaType (mMediaSources sel') 0 r1 isNew1)
                  else (sel1, r1, idx1, isNew1))
           in if r2
              then
                (case (if mMediaSource (smux sel2) \<noteq> Some (mMediaSources sel2 ! idx2)
                          \<or> mCurrentDevice sel2 \<noteq> mDesiredDevice sel2
                       then switchSource w sel2 pDesiredDevice tMediaType tOldMediaSourceOpened
                              tOldMediaSource idx2 isNew2
                       else Inr (r2, False, sel2\<lparr>smux := LOG LogSourceOnlyReselected (smux sel2)\<rparr>)) of
                   Inl err \<Rightarrow> Inl err
                 | Inr (r3, isNew3, sel3) \<Rightarrow>
                     moveMediaFilters tOldMediaSource
                       (r3, isNew3, sel3\<lparr>mCurrentDevice := mDesiredDevice sel3\<rparr>))
              else moveMediaFilters tOldMediaSource
                     (r2, isNew2, sel2\<lparr>smux := LOG (LogCouldNotSelectDevice pDesiredDevice) (smux sel2)\<rparr>))"

text \<open>
  For evaluation: a muxer with three registered sources whose active source 0 is open, and
  worlds in which only the listed sources can be opened.
\<close>

definition threeSources :: selector where
  "threeSources =
     \<lparr> smux = videoMuxer,
       mMediaSources = [0, 1, 2],
       mCurrentDevice = ''camera 0'',
       mDesiredDevice = ''camera 0'',
       mGrabbingStopped = False,
       mMediaFilters = (\<lambda>s. []) \<rparr>"

definition openableWorld :: "source list \<Rightarrow> world" where
  "openableWorld openable =
     (sampleWorld [AV_CODEC_ID_H264])\<lparr>sourceOpenVideoGrabDevice := (\<lambda>s x y f. s \<in> set openable)\<rparr>"

text \<open>
  For the statements about the frame rate: a \<^verbatim>\<open>float\<close> that is a number between two bounds,
  and, for evaluation, a world whose sources report 60 frames per second.
\<close>

definition float_between :: "real \<Rightarrow> real \<Rightarrow> cfloat \<Rightarrow> bool" where
  "float_between lo hi f = (case f of FloatVal v \<Rightarrow> lo \<le> v \<and> v \<le> hi | FloatNaN \<Rightarrow> False)"

definition fastSourceWorld :: world where
  "fastSourceWorld =
     (sampleWorld [AV_CODEC_ID_H264])\<lparr>GetOutputFrameRate := (\<lambda>s. FloatVal 60),
                                       GetInputFrameRate := (\<lambda>s. FloatVal 60)\<rparr>"

text \<open>The frame rate the muxer clamps: the configured maximum, else the rate of the base source, else the request.\<close>

definition sessionFps :: "'a world_scheme \<Rightarrow> muxer \<Rightarrow> cfloat \<Rightarrow> cfloat" where
  "sessionFps w m pFps =
     (if mStreamMaxFps m \<noteq> 0 then FloatVal (real_of_int (mStreamMaxFps m))
      else case mMediaSource m of None \<Rightarrow> pFps | Some s \<Rightarrow> GetOutputFrameRate w s)"

section \<open>Properties\<close>

subsection \<open>The resolution validator\<close>

lemma int32_id: "- 2147483648 \<le> x \<Longrightarrow> x \<le> 2147483647 \<Longrightarrow> int32 x = x"
  by (simp add: int32_def)

lemma int32_diff: "int32 (int32 a - b) = int32 (a - b)"
  by (simp add: int32_def mod_diff_left_eq algebra_simps)

lemma roundUpTo2_nonneg:
  "0 \<le> r \<Longrightarrow> r < 2147483647 \<Longrightarrow> roundUpTo2 r = (if even r then r else r + 1)"
  unfolding roundUpTo2_def
  by (auto simp: int32_id signed_divide_int_def sgn_if elim!: evenE oddE)

text \<open>
  At the largest \<^verbatim>\<open>int\<close> the addition of the H.264 branch overflows; the value the compiled
  code stores is the least \<^verbatim>\<open>int\<close>.
\<close>

lemma roundUpTo2_wraps: "roundUpTo2 2147483647 = - 2147483648"
  by (simp add: roundUpTo2_def int32_def signed_divide_int_def)

text \<open>
  Claim C3. The validator is a function of the two dimensions and the codec alone. For H.261
  it thresholds on the width: 640x480 becomes 352x288, and any width above 176 gives CIF,
  any other QCIF. For H.264 each dimension of a resolution (a value that is not negative and
  has an even \<^verbatim>\<open>int\<close> value at or above it, that is, a value from 0 to 2147483646) is
  rounded up to the next even value: 640x480 stays, 101x101 becomes 102x102. A codec without
  a branch of its own in the validator gets its input back.
\<close>

theorem ValidateVideoResolution_policies:
  "ValidateVideoResolutionForEncoderCodec 640 480 AV_CODEC_ID_H261 = (352, 288)
   \<and> ValidateVideoResolutionForEncoderCodec 640 480 AV_CODEC_ID_H264 = (640, 480)
   \<and> ValidateVideoResolutionForEncoderCodec 101 101 AV_CODEC_ID_H264 = (102, 102)
   \<and> ValidateVideoResolutionForEncoderCodec x y AV_CODEC_ID_H261
        = (if x > 176 then (352, 288) else (176, 144))
   \<and> (0 \<le> x \<and> x < 2147483647 \<and> 0 \<le> y \<and> y < 2147483647 \<longrightarrow>
        ValidateVideoResolutionForEncoderCodec x y AV_CODEC_ID_H264
          = (if even x then x else x + 1, if even y then y else y + 1))
   \<and> (\<not> hasResolutionPolicy c \<longrightarrow> ValidateVideoResolutionForEncoderCodec x y c = (x, y))"
proof -
  have ex: "roundUpTo2 640 = 640" "roundUpTo2 480 = 480" "roundUpTo2 101 = 102"
    by (simp_all add: roundUpTo2_nonneg)
  have dflt: "\<not> hasResolutionPolicy c \<Longrightarrow> ValidateVideoResolutionForEncoderCodec x y c = (x, y)"
    by (cases c) (simp_all add: hasResolutionPolicy_def)
  show ?thesis
    using ex dflt by (simp add: roundUpTo2_nonneg)
qed

theorem ValidateVideoResolution_policies_witness:
  "(0::int) \<le> 101 \<and> (101::int) < 2147483647 \<and> (0::int) \<le> 480 \<and> (480::int) < 2147483647
   \<and> \<not> hasResolutionPolicy AV_CODEC_ID_MPEG4
   \<and> ValidateVideoResolutionForEncoderCodec 101 480 AV_CODEC_ID_H264 = (102, 480)
   \<and> ValidateVideoResolutionForEncoderCodec 101 480 AV_CODEC_ID_MPEG4 = (101, 480)"
  using ValidateVideoResolution_policies [of 101 480 AV_CODEC_ID_MPEG4]
  by (simp add: hasResolutionPolicy_def)

subsection \<open>Opening and closing keep the preferences\<close>

lemma adjustMaxPacketSize_min:
  "adjustMaxPacketSize e c p
     = min (int32 (p - packetOverhead e c)) (MEDIA_SOURCE_MEM_FRAGMENT_BUFFER_SIZE e - 256)"
proof -
  have "int32 (int32 (int32 (int32 (int32 (p - IP6_HEADER_SIZE e) - IP_OPTIONS_SIZE e)
            - TCP_HEADER_SIZE e) - TCP_FRAGMENT_HEADER_SIZE e) - GetHeaderSizeMax e c)
        = int32 (p - packetOverhead e c)"
    by (simp add: int32_diff packetOverhead_def algebra_simps)
  then show ?thesis
    by (simp add: adjustMaxPacketSize_def Let_def min_def)
qed

lemmas muxer_steps = LOG_def StartEncoder_def StopEncoder_def MarkOpenGrabDeviceSuccessful_def

lemma OpenVideoMuxer_keeps:
  "mStreamCodecId (snd (OpenVideoMuxer w m x y f)) = mStreamCodecId m"
  "mStreamMaxPacketSize (snd (OpenVideoMuxer w m x y f)) = mStreamMaxPacketSize m"
  "mStreamQuality (snd (OpenVideoMuxer w m x y f)) = mStreamQuality m"
  "mStreamMaxFps (snd (OpenVideoMuxer w m x y f)) = mStreamMaxFps m"
  "mRequestedStreamingResX (snd (OpenVideoMuxer w m x y f)) = mRequestedStreamingResX m"
  "mRequestedStreamingResY (snd (OpenVideoMuxer w m x y f)) = mRequestedStreamingResY m"
  "set (mLog m) \<subseteq> set (mLog (snd (OpenVideoMuxer w m x y f)))"
  by (auto simp: OpenVideoMuxer_def Let_def muxer_steps split: prod.splits)

lemma OpenAudioMuxer_keeps:
  "mStreamCodecId (snd (OpenAudioMuxer w m r c)) = mStreamCodecId m"
  "mStreamMaxPacketSize (snd (OpenAudioMuxer w m r c)) = mStreamMaxPacketSize m"
  "mStreamQuality (snd (OpenAudioMuxer w m r c)) = mStreamQuality m"
  "mStreamMaxFps (snd (OpenAudioMuxer w m r c)) = mStreamMaxFps m"
  "mRequestedStreamingResX (snd (OpenAudioMuxer w m r c)) = mRequestedStreamingResX m"
  "mRequestedStreamingResY (snd (OpenAudioMuxer w m r c)) = mRequestedStreamingResY m"
  "set (mLog m) \<subseteq> set (mLog (snd (OpenAudioMuxer w m r c)))"
  by (auto simp: OpenAudioMuxer_def Let_def muxer_steps split: prod.splits)

lemma CloseMuxer_keeps:
  "mStreamCodecId (snd (CloseMuxer m)) = mStreamCodecId m"
  "mStreamMaxPacketSize (snd (CloseMuxer m)) = mStreamMaxPacketSize m"
  "mStreamQuality (snd (CloseMuxer m)) = mStreamQuality m"
  "mStreamMaxFps (snd (CloseMuxer m)) = mStreamMaxFps m"
  "mRequestedStreamingResX (snd (CloseMuxer m)) = mRequestedStreamingResX m"
  "mRequestedStreamingResY (snd (CloseMuxer m)) = mRequestedStreamingResY m"
  "set (mLog m) \<subseteq> set (mLog (snd (CloseMuxer m)))"
  by (auto simp: CloseMuxer_def Let_def muxer_steps split: prod.splits)

lemma Reset_keeps:
  "mStreamCodecId (snd (Reset w m t)) = mStreamCodecId m"
  "mStreamMaxPacketSize (snd (Reset w m t)) = mStreamMaxPacketSize m"
  "mStreamQuality (snd (Reset w m t)) = mStreamQuality m"
  "mStreamMaxFps (snd (Reset w m t)) = mStreamMaxFps m"
  "mRequestedStreamingResX (snd (Reset w m t)) = mRequestedStreamingResX m"
  "mRequestedStreamingResY (snd (Reset w m t)) = mRequestedStreamingResY m"
  by (simp_all add: Reset_def Let_def OpenVideoMuxer_keeps OpenAudioMuxer_keeps CloseMuxer_keeps LOG_def
        split: MediaType.splits)

lemma OpenVideoMuxer_bitrate:
  "mStreamBitRate (snd (OpenVideoMuxer w m x y f))
     = (if mStreamBitRate m = -1 then 90 * 1024 else mStreamBitRate m)"
  by (auto simp: OpenVideoMuxer_def Let_def muxer_steps split: prod.splits)

lemma OpenAudioMuxer_bitrate:
  "mStreamBitRate (snd (OpenAudioMuxer w m r c))
     = (if mStreamBitRate m = -1 then 256 * 1024 else mStreamBitRate m)"
  by (auto simp: OpenAudioMuxer_def Let_def muxer_steps split: prod.splits)

lemma CloseMuxer_bitrate:
  "mStreamBitRate (snd (CloseMuxer m)) = mStreamBitRate m"
  "mMediaType (snd (CloseMuxer m)) = mMediaType m"
  by (auto simp: CloseMuxer_def Let_def muxer_steps split: prod.splits)

lemma Reset_bitrate:
  "mStreamBitRate (snd (Reset w m MEDIA_UNKNOWN))
     = (if mStreamBitRate m = -1 \<and> mMediaType m = MEDIA_VIDEO then 90 * 1024
        else if mStreamBitRate m = -1 \<and> mMediaType m = MEDIA_AUDIO then 256 * 1024
        else mStreamBitRate m)"
  by (simp add: Reset_def Let_def OpenVideoMuxer_bitrate OpenAudioMuxer_bitrate CloseMuxer_bitrate
        LOG_def split: MediaType.splits)

lemma Reset_log: "set (mLog m) \<subseteq> set (mLog (snd (Reset w m t)))"
proof -
  have c: "set (mLog m) \<subseteq> set (mLog (snd (CloseMuxer m)))" by (rule CloseMuxer_keeps)
  show ?thesis
    unfolding Reset_def Let_def
    using c OpenVideoMuxer_keeps(7) OpenAudioMuxer_keeps(7)
    by (auto simp: LOG_def split: MediaType.splits) blast+
qed

subsection \<open>The preference setter, step by step\<close>

lemma validateRequestedResolution_fst:
  "fst (validateRequestedResolution m c x y) = validatedRequest c x y"
proof (cases "ValidateVideoResolutionForEncoderCodec x y c")
  case (Pair a b)
  then show ?thesis
    by (simp add: validateRequestedResolution_def validatedRequest_def)
qed

lemma validateRequestedResolution_snd:
  "snd (validateRequestedResolution m c x y) =
     (if validatedRequest c x y \<noteq> (x, y)
      then LOG (LogResolutionChanged x y (fst (validatedRequest c x y)) (snd (validatedRequest c x y))) m
      else m)"
proof (cases "ValidateVideoResolutionForEncoderCodec x y c")
  case (Pair a b)
  then show ?thesis
    by (simp add: validateRequestedResolution_def validatedRequest_def)
qed

lemma IsOutputCodecSupported_snd:
  "snd (IsOutputCodecSupported w m c) =
     (if GetGuiNameFromCodecID w (GetCodecIDFromGuiName w c) = c \<and> \<not> avcodec_find_encoder w (GetCodecIDFromGuiName w c)
      then LOG (LogEncoderNotFound c) m else m)"
  by (simp add: IsOutputCodecSupported_def Let_def)

lemma IsOutputCodecSupported_fst:
  "fst (IsOutputCodecSupported w m c) \<longleftrightarrow>
     GetGuiNameFromCodecID w (GetCodecIDFromGuiName w c) = c \<and> avcodec_find_encoder w (GetCodecIDFromGuiName w c)"
  by (simp add: IsOutputCodecSupported_def Let_def)

lemma preferencesDiffer_log [simp]:
  "preferencesDiffer (m\<lparr>mLog := l\<rparr>) = preferencesDiffer m"
  by (simp add: preferencesDiffer_def fun_eq_iff)

lemma preferencesDiffer_LOG [simp]:
  "preferencesDiffer (LOG ev m) = preferencesDiffer m"
  by (simp add: LOG_def)

lemma storePreferences_opened [simp]:
  "mMediaSourceOpened (storePreferences m a b c d e f g) = mMediaSourceOpened m"
  by (simp add: storePreferences_def LOG_def)

lemma opened_LOG [simp]: "mMediaSourceOpened (LOG ev m) = mMediaSourceOpened m"
  by (simp add: LOG_def)

lemma setterPrelude_eq:
  "snd (validateRequestedResolution
          (if \<not> fst (IsOutputCodecSupported w m c)
           then LOG (LogUnsupportedCodec c) (snd (IsOutputCodecSupported w m c))
           else snd (IsOutputCodecSupported w m c))
          (GetCodecIDFromGuiName w c) rx ry)
   = m\<lparr>mLog := mLog m @ setterLogLines w c rx ry\<rparr>"
  unfolding validateRequestedResolution_snd IsOutputCodecSupported_snd IsOutputCodecSupported_fst setterLogLines_def
  by (simp add: LOG_def)

lemma SetOutputStreamPreferences_unfold:
  "SetOutputStreamPreferences w m c q br p d rx ry fps =
     (if preferencesDiffer m (GetCodecIDFromGuiName w c) fps q br
           (adjustMaxPacketSize w (GetCodecIDFromGuiName w c) p)
           (fst (validatedRequest (GetCodecIDFromGuiName w c) rx ry))
           (snd (validatedRequest (GetCodecIDFromGuiName w c) rx ry))
      then (True,
            if d \<and> mMediaSourceOpened m
            then snd (Reset w (LOG LogDoReset
                   (storePreferences (m\<lparr>mLog := mLog m @ setterLogLines w c rx ry\<rparr>)
                      (GetCodecIDFromGuiName w c) fps q br
                      (adjustMaxPacketSize w (GetCodecIDFromGuiName w c) p)
                      (fst (validatedRequest (GetCodecIDFromGuiName w c) rx ry))
                      (snd (validatedRequest (GetCodecIDFromGuiName w c) rx ry)))) MEDIA_UNKNOWN)
            else storePreferences (m\<lparr>mLog := mLog m @ setterLogLines w c rx ry\<rparr>)
                      (GetCodecIDFromGuiName w c) fps q br
                      (adjustMaxPacketSize w (GetCodecIDFromGuiName w c) p)
                      (fst (validatedRequest (GetCodecIDFromGuiName w c) rx ry))
                      (snd (validatedRequest (GetCodecIDFromGuiName w c) rx ry)))
      else (False, LOG LogNoSettingsChanged (m\<lparr>mLog := mLog m @ setterLogLines w c rx ry\<rparr>)))"
  unfolding SetOutputStreamPreferences_def Let_def split_beta
  unfolding setterPrelude_eq validateRequestedResolution_fst
  by simp

lemma storePreferences_fields [simp]:
  "mStreamCodecId (storePreferences m a b c d e f g) = a"
  "mStreamMaxFps (storePreferences m a b c d e f g) = b"
  "mStreamQuality (storePreferences m a b c d e f g) = c"
  "mStreamBitRate (storePreferences m a b c d e f g) = d"
  "mStreamMaxPacketSize (storePreferences m a b c d e f g) = e"
  "mRequestedStreamingResX (storePreferences m a b c d e f g) = f"
  "mRequestedStreamingResY (storePreferences m a b c d e f g) = g"
  "mCurrentStreamingResX (storePreferences m a b c d e f g) = mCurrentStreamingResX m"
  "mCurrentStreamingResY (storePreferences m a b c d e f g) = mCurrentStreamingResY m"
  "mMediaType (storePreferences m a b c d e f g) = mMediaType m"
  "mLog (storePreferences m a b c d e f g) = mLog m @ [LogSettingNewPreferences]"
  by (simp_all add: storePreferences_def LOG_def)

lemma LOG_fields [simp]:
  "mStreamCodecId (LOG ev m) = mStreamCodecId m"
  "mStreamMaxFps (LOG ev m) = mStreamMaxFps m"
  "mStreamQuality (LOG ev m) = mStreamQuality m"
  "mStreamBitRate (LOG ev m) = mStreamBitRate m"
  "mStreamMaxPacketSize (LOG ev m) = mStreamMaxPacketSize m"
  "mRequestedStreamingResX (LOG ev m) = mRequestedStreamingResX m"
  "mRequestedStreamingResY (LOG ev m) = mRequestedStreamingResY m"
  "mCurrentStreamingResX (LOG ev m) = mCurrentStreamingResX m"
  "mCurrentStreamingResY (LOG ev m) = mCurrentStreamingResY m"
  "mMediaType (LOG ev m) = mMediaType m"
  "mLog (LOG ev m) = mLog m @ [ev]"
  by (simp_all add: LOG_def)

lemma stored_codec:
  "mStreamCodecId (snd (SetOutputStreamPreferences w m c q br p d rx ry fps)) = GetCodecIDFromGuiName w c"
  by (simp add: SetOutputStreamPreferences_unfold Reset_keeps preferencesDiffer_def)

lemma stored_packet:
  "mStreamMaxPacketSize (snd (SetOutputStreamPreferences w m c q br p d rx ry fps))
     = adjustMaxPacketSize w (GetCodecIDFromGuiName w c) p"
  by (simp add: SetOutputStreamPreferences_unfold Reset_keeps preferencesDiffer_def)

lemma stored_fps:
  "mStreamMaxFps (snd (SetOutputStreamPreferences w m c q br p d rx ry fps)) = fps"
  by (simp add: SetOutputStreamPreferences_unfold Reset_keeps preferencesDiffer_def)

lemma stored_quality:
  "mStreamQuality (snd (SetOutputStreamPreferences w m c q br p d rx ry fps)) = q"
  by (simp add: SetOutputStreamPreferences_unfold Reset_keeps preferencesDiffer_def)

lemma stored_resolution:
  "fst (SetOutputStreamPreferences w m c q br p d rx ry fps) \<Longrightarrow>
     mRequestedStreamingResX (snd (SetOutputStreamPreferences w m c q br p d rx ry fps))
       = fst (validatedRequest (GetCodecIDFromGuiName w c) rx ry)
     \<and> mRequestedStreamingResY (snd (SetOutputStreamPreferences w m c q br p d rx ry fps))
       = snd (validatedRequest (GetCodecIDFromGuiName w c) rx ry)"
  by (simp add: SetOutputStreamPreferences_unfold Reset_keeps split: if_splits)

lemma stored_bitrate:
  "mStreamBitRate (snd (SetOutputStreamPreferences w m c q br p d rx ry fps))
     = (if fst (SetOutputStreamPreferences w m c q br p d rx ry fps) \<and> d \<and> mMediaSourceOpened m
           \<and> br = -1 \<and> mMediaType m = MEDIA_VIDEO then 90 * 1024
        else if fst (SetOutputStreamPreferences w m c q br p d rx ry fps) \<and> d \<and> mMediaSourceOpened m
           \<and> br = -1 \<and> mMediaType m = MEDIA_AUDIO then 256 * 1024
        else br)"
  by (simp add: SetOutputStreamPreferences_unfold Reset_bitrate preferencesDiffer_def)

lemma setter_result:
  "fst (SetOutputStreamPreferences w m c q br p d rx ry fps) =
     preferencesDiffer m (GetCodecIDFromGuiName w c) fps q br
           (adjustMaxPacketSize w (GetCodecIDFromGuiName w c) p)
           (fst (validatedRequest (GetCodecIDFromGuiName w c) rx ry))
           (snd (validatedRequest (GetCodecIDFromGuiName w c) rx ry))"
  by (simp add: SetOutputStreamPreferences_unfold)

lemma setter_log:
  "set (mLog m) \<union> set (setterLogLines w c rx ry)
     \<subseteq> set (mLog (snd (SetOutputStreamPreferences w m c q br p d rx ry fps)))"
proof -
  let ?m3 = "m\<lparr>mLog := mLog m @ setterLogLines w c rx ry\<rparr>"
  let ?r = "SetOutputStreamPreferences w m c q br p d rx ry fps"
  let ?D = "preferencesDiffer m (GetCodecIDFromGuiName w c) fps q br
           (adjustMaxPacketSize w (GetCodecIDFromGuiName w c) p)
           (fst (validatedRequest (GetCodecIDFromGuiName w c) rx ry))
           (snd (validatedRequest (GetCodecIDFromGuiName w c) rx ry))"
  define m4 where "m4 = storePreferences ?m3 (GetCodecIDFromGuiName w c) fps q br
           (adjustMaxPacketSize w (GetCodecIDFromGuiName w c) p)
           (fst (validatedRequest (GetCodecIDFromGuiName w c) rx ry))
           (snd (validatedRequest (GetCodecIDFromGuiName w c) rx ry))"
  have L3: "set (mLog ?m3) = set (mLog m) \<union> set (setterLogLines w c rx ry)" by simp
  have L4: "set (mLog ?m3) \<subseteq> set (mLog m4)"
    unfolding m4_def storePreferences_fields by (simp only: set_append) blast
  have key: "set (mLog ?m3) \<subseteq> set (mLog (snd ?r))"
  proof (cases ?D)
    case False
    have "snd ?r = LOG LogNoSettingsChanged ?m3"
      by (subst SetOutputStreamPreferences_unfold) (simp only: False if_False snd_conv)
    then have "mLog (snd ?r) = mLog ?m3 @ [LogNoSettingsChanged]"
      by (simp only: LOG_fields)
    then show ?thesis by (simp only: set_append) blast
  next
    case True
    have r0: "snd ?r = (if d \<and> mMediaSourceOpened m then snd (Reset w (LOG LogDoReset m4) MEDIA_UNKNOWN) else m4)"
      unfolding m4_def
      by (subst SetOutputStreamPreferences_unfold) (simp only: True if_True snd_conv)
    show ?thesis
    proof (cases "d \<and> mMediaSourceOpened m")
      case False
      with r0 have "snd ?r = m4" by (simp only: if_False)
      with L4 show ?thesis by (simp only:)
    next
      case True
      with r0 have rr: "snd ?r = snd (Reset w (LOG LogDoReset m4) MEDIA_UNKNOWN)"
        by (simp only: if_True simp_thms)
      have "set (mLog m4) \<subseteq> set (mLog (LOG LogDoReset m4))"
        by (simp only: LOG_fields set_append) blast
      also have "\<dots> \<subseteq> set (mLog (snd (Reset w (LOG LogDoReset m4) MEDIA_UNKNOWN)))"
        by (rule Reset_log)
      finally have "set (mLog m4) \<subseteq> set (mLog (snd ?r))" by (simp only: rr)
      with L4 show ?thesis by (rule subset_trans)
    qed
  qed
  show ?thesis using key by (simp only: L3)
qed

subsection \<open>The packet budget\<close>

text \<open>
  A request within the overheads of the least \<^verbatim>\<open>int\<close> makes the subtractions overflow: the
  value wraps to a large one, and the sanity check replaces it by its upper bound.
\<close>

lemma adjustMaxPacketSize_wraps:
  "adjustMaxPacketSize (sampleWorld es) AV_CODEC_ID_H264 (- 2147483600) = 65280"
  by (simp add: adjustMaxPacketSize_def int32_def sampleWorld_def)

text \<open>
  Claim C2, as amended. After every call of the setter the stored maximum packet size is at
  most the fragment buffer size minus 256. Whenever the requested size minus the IPv6
  header, the IP options, the TCP header, the TCP fragment header and the codec's maximum
  RTP header is a value an \<^verbatim>\<open>int\<close> can hold, the stored size is that difference, bounded from
  above by the fragment buffer size minus 256. The code has no lower bound: for such a
  request the stored value is negative whenever the request is smaller than the overheads.
\<close>

theorem packet_budget_upper_clamp:
  "mStreamMaxPacketSize (snd (SetOutputStreamPreferences w m c q br p d rx ry fps))
     \<le> MEDIA_SOURCE_MEM_FRAGMENT_BUFFER_SIZE w - 256
   \<and> (- 2147483648 \<le> p - (IP6_HEADER_SIZE w + IP_OPTIONS_SIZE w + TCP_HEADER_SIZE w
                  + TCP_FRAGMENT_HEADER_SIZE w + GetHeaderSizeMax w (GetCodecIDFromGuiName w c))
      \<and> p - (IP6_HEADER_SIZE w + IP_OPTIONS_SIZE w + TCP_HEADER_SIZE w
                  + TCP_FRAGMENT_HEADER_SIZE w + GetHeaderSizeMax w (GetCodecIDFromGuiName w c))
            \<le> 2147483647 \<longrightarrow>
        mStreamMaxPacketSize (snd (SetOutputStreamPreferences w m c q br p d rx ry fps))
          = min (p - (IP6_HEADER_SIZE w + IP_OPTIONS_SIZE w + TCP_HEADER_SIZE w
                       + TCP_FRAGMENT_HEADER_SIZE w + GetHeaderSizeMax w (GetCodecIDFromGuiName w c)))
                (MEDIA_SOURCE_MEM_FRAGMENT_BUFFER_SIZE w - 256))
   \<and> (- 2147483648 \<le> p - (IP6_HEADER_SIZE w + IP_OPTIONS_SIZE w + TCP_HEADER_SIZE w
                  + TCP_FRAGMENT_HEADER_SIZE w + GetHeaderSizeMax w (GetCodecIDFromGuiName w c))
      \<and> p < IP6_HEADER_SIZE w + IP_OPTIONS_SIZE w + TCP_HEADER_SIZE w
                  + TCP_FRAGMENT_HEADER_SIZE w + GetHeaderSizeMax w (GetCodecIDFromGuiName w c) \<longrightarrow>
        mStreamMaxPacketSize (snd (SetOutputStreamPreferences w m c q br p d rx ry fps)) < 0)"
proof (intro conjI impI)
  show "mStreamMaxPacketSize (snd (SetOutputStreamPreferences w m c q br p d rx ry fps))
     \<le> MEDIA_SOURCE_MEM_FRAGMENT_BUFFER_SIZE w - 256"
    by (simp add: stored_packet adjustMaxPacketSize_min)
next
  assume "- 2147483648 \<le> p - (IP6_HEADER_SIZE w + IP_OPTIONS_SIZE w + TCP_HEADER_SIZE w
                  + TCP_FRAGMENT_HEADER_SIZE w + GetHeaderSizeMax w (GetCodecIDFromGuiName w c))
      \<and> p - (IP6_HEADER_SIZE w + IP_OPTIONS_SIZE w + TCP_HEADER_SIZE w
                  + TCP_FRAGMENT_HEADER_SIZE w + GetHeaderSizeMax w (GetCodecIDFromGuiName w c))
            \<le> 2147483647"
  then have "int32 (p - packetOverhead w (GetCodecIDFromGuiName w c))
             = p - packetOverhead w (GetCodecIDFromGuiName w c)"
    by (intro int32_id) (simp_all add: packetOverhead_def)
  then show "mStreamMaxPacketSize (snd (SetOutputStreamPreferences w m c q br p d rx ry fps))
          = min (p - (IP6_HEADER_SIZE w + IP_OPTIONS_SIZE w + TCP_HEADER_SIZE w
                       + TCP_FRAGMENT_HEADER_SIZE w + GetHeaderSizeMax w (GetCodecIDFromGuiName w c)))
                (MEDIA_SOURCE_MEM_FRAGMENT_BUFFER_SIZE w - 256)"
    by (simp add: stored_packet adjustMaxPacketSize_min packetOverhead_def)
next
  assume a: "- 2147483648 \<le> p - (IP6_HEADER_SIZE w + IP_OPTIONS_SIZE w + TCP_HEADER_SIZE w
                  + TCP_FRAGMENT_HEADER_SIZE w + GetHeaderSizeMax w (GetCodecIDFromGuiName w c))
      \<and> p < IP6_HEADER_SIZE w + IP_OPTIONS_SIZE w + TCP_HEADER_SIZE w
                  + TCP_FRAGMENT_HEADER_SIZE w + GetHeaderSizeMax w (GetCodecIDFromGuiName w c)"
  then have "int32 (p - packetOverhead w (GetCodecIDFromGuiName w c))
             = p - packetOverhead w (GetCodecIDFromGuiName w c)"
    by (intro int32_id) (simp_all add: packetOverhead_def)
  then show "mStreamMaxPacketSize (snd (SetOutputStreamPreferences w m c q br p d rx ry fps)) < 0"
    using a by (simp add: stored_packet adjustMaxPacketSize_min packetOverhead_def min_def)
qed

theorem packet_budget_upper_clamp_witness:
  "- 2147483648 \<le> (1400::int) - (40 + 0 + 20 + 4 + 16)
   \<and> (1400::int) - (40 + 0 + 20 + 4 + 16) \<le> 2147483647
   \<and> mStreamMaxPacketSize
        (snd (SetOutputStreamPreferences (sampleWorld [AV_CODEC_ID_H264]) (newMuxer None)
                ''H.264'' 20 (-1) 1400 False 352 288 0)) = 1320
   \<and> - 2147483648 \<le> (10::int) - (40 + 0 + 20 + 4 + 16)
   \<and> (10::int) < 40 + 0 + 20 + 4 + 16
   \<and> mStreamMaxPacketSize
        (snd (SetOutputStreamPreferences (sampleWorld [AV_CODEC_ID_H264]) (newMuxer None)
                ''H.264'' 20 (-1) 10 False 352 288 0)) < 0"
  using packet_budget_upper_clamp [of "sampleWorld [AV_CODEC_ID_H264]" "newMuxer None" "''H.264''"
          20 "-1" 1400 False 352 288 0]
    packet_budget_upper_clamp [of "sampleWorld [AV_CODEC_ID_H264]" "newMuxer None" "''H.264''"
          20 "-1" 10 False 352 288 0]
  by (simp add: sampleWorld_def)

text \<open>
  The claim as stated fails: a fresh muxer asked for packets of 64 bytes stores a negative
  budget.
\<close>

theorem packet_budget_negative_counterexample:
  "\<not> 0 \<le> mStreamMaxPacketSize
      (snd (SetOutputStreamPreferences (sampleWorld [AV_CODEC_ID_H264]) (newMuxer None)
              ''H.264'' 20 (-1) 64 False 352 288 0))"
  by (simp add: stored_packet adjustMaxPacketSize_def int32_def sampleWorld_def)

subsection \<open>A codec without an encoder\<close>

text \<open>
  Claim C5, as amended. When the setter is called with a codec name for which no encoder is
  available, it logs the rejection and returns normally with its changed/unchanged result,
  and the stored codec is the codec the name stands for: the unsupported codec is adopted.
\<close>

theorem unsupported_codec_logged_and_adopted:
  assumes "\<not> fst (IsOutputCodecSupported w m c)"
  shows "LogUnsupportedCodec c \<in> set (mLog (snd (SetOutputStreamPreferences w m c q br p d rx ry fps)))
       \<and> mStreamCodecId (snd (SetOutputStreamPreferences w m c q br p d rx ry fps)) = GetCodecIDFromGuiName w c
       \<and> fst (SetOutputStreamPreferences w m c q br p d rx ry fps) =
           preferencesDiffer m (GetCodecIDFromGuiName w c) fps q br
             (adjustMaxPacketSize w (GetCodecIDFromGuiName w c) p)
             (fst (validatedRequest (GetCodecIDFromGuiName w c) rx ry))
             (snd (validatedRequest (GetCodecIDFromGuiName w c) rx ry))"
proof -
  have "LogUnsupportedCodec c \<in> set (setterLogLines w c rx ry)"
    using assms by (simp add: setterLogLines_def IsOutputCodecSupported_fst)
  then have "LogUnsupportedCodec c \<in> set (mLog (snd (SetOutputStreamPreferences w m c q br p d rx ry fps)))"
    using setter_log [of m w c rx ry q br p d fps] by blast
  then show ?thesis by (simp add: stored_codec setter_result)
qed

theorem unsupported_codec_logged_and_adopted_witness:
  "\<not> fst (IsOutputCodecSupported (sampleWorld []) (newMuxer None) ''H.264'')
   \<and> LogUnsupportedCodec ''H.264'' \<in> set (mLog (snd
        (SetOutputStreamPreferences (sampleWorld []) (newMuxer None) ''H.264'' 20 (-1) 1400 False 352 288 0)))
   \<and> mStreamCodecId (snd
        (SetOutputStreamPreferences (sampleWorld []) (newMuxer None) ''H.264'' 20 (-1) 1400 False 352 288 0))
       = AV_CODEC_ID_H264"
proof -
  have h: "\<not> fst (IsOutputCodecSupported (sampleWorld []) (newMuxer None) ''H.264'')"
    by (simp add: IsOutputCodecSupported_fst sampleWorld_def)
  have g: "GetCodecIDFromGuiName (sampleWorld []) ''H.264'' = AV_CODEC_ID_H264"
    by (simp add: sampleWorld_def guiCodecId_def)
  show ?thesis
    using h unsupported_codec_logged_and_adopted [OF h, of 20 "-1" 1400 False 352 288 0] by (simp add: g)
qed

text \<open>
  The claim as stated fails: with no H.264 encoder in the codec engine, the call replaces
  the stored codec of a fresh muxer by H.264.
\<close>

theorem unsupported_codec_adopted_counterexample:
  "\<not> fst (IsOutputCodecSupported (sampleWorld []) (newMuxer None) ''H.264'')
   \<and> mStreamCodecId (snd
        (SetOutputStreamPreferences (sampleWorld []) (newMuxer None) ''H.264'' 20 (-1) 1400 False 352 288 0))
       \<noteq> mStreamCodecId (newMuxer None)"
  by (simp add: IsOutputCodecSupported_fst stored_codec sampleWorld_def guiCodecId_def newMuxer_def)

subsection \<open>What the setter returns and stores\<close>

lemma setter_state:
  "\<exists>m4. snd (SetOutputStreamPreferences w m c q br p d rx ry fps)
           = (if fst (SetOutputStreamPreferences w m c q br p d rx ry fps) \<and> d \<and> mMediaSourceOpened m
              then snd (Reset w (LOG LogDoReset m4) MEDIA_UNKNOWN) else m4)
        \<and> mStreamCodecId m4 = GetCodecIDFromGuiName w c
        \<and> mStreamMaxFps m4 = fps
        \<and> mStreamQuality m4 = q
        \<and> mStreamBitRate m4 = br
        \<and> mStreamMaxPacketSize m4 = adjustMaxPacketSize w (GetCodecIDFromGuiName w c) p
        \<and> (fst (SetOutputStreamPreferences w m c q br p d rx ry fps) \<longrightarrow>
              mRequestedStreamingResX m4 = fst (validatedRequest (GetCodecIDFromGuiName w c) rx ry)
            \<and> mRequestedStreamingResY m4 = snd (validatedRequest (GetCodecIDFromGuiName w c) rx ry))
        \<and> mMediaSourceOpened m4 = mMediaSourceOpened m
        \<and> mCurrentStreamingResX m4 = mCurrentStreamingResX m
        \<and> mCurrentStreamingResY m4 = mCurrentStreamingResY m"
proof -
  let ?m3 = "m\<lparr>mLog := mLog m @ setterLogLines w c rx ry\<rparr>"
  let ?r = "SetOutputStreamPreferences w m c q br p d rx ry fps"
  let ?D = "preferencesDiffer m (GetCodecIDFromGuiName w c) fps q br
           (adjustMaxPacketSize w (GetCodecIDFromGuiName w c) p)
           (fst (validatedRequest (GetCodecIDFromGuiName w c) rx ry))
           (snd (validatedRequest (GetCodecIDFromGuiName w c) rx ry))"
  have fr: "fst ?r = ?D" by (rule setter_result)
  show ?thesis
  proof (cases ?D)
    case False
    have s: "snd ?r = LOG LogNoSettingsChanged ?m3"
      by (subst SetOutputStreamPreferences_unfold) (simp only: False if_False snd_conv)
    have eqs: "mStreamCodecId m = GetCodecIDFromGuiName w c" "mStreamMaxFps m = fps"
      "mStreamQuality m = q" "mStreamBitRate m = br"
      "mStreamMaxPacketSize m = adjustMaxPacketSize w (GetCodecIDFromGuiName w c) p"
      using False by (simp_all add: preferencesDiffer_def)
    show ?thesis
      apply (rule exI [where x = "LOG LogNoSettingsChanged ?m3"])
      apply (simp only: fr False s simp_thms if_False)
      apply (simp add: eqs LOG_def)
      done
  next
    case True
    define m4 where "m4 = storePreferences ?m3 (GetCodecIDFromGuiName w c) fps q br
           (adjustMaxPacketSize w (GetCodecIDFromGuiName w c) p)
           (fst (validatedRequest (GetCodecIDFromGuiName w c) rx ry))
           (snd (validatedRequest (GetCodecIDFromGuiName w c) rx ry))"
    have r0: "snd ?r = (if d \<and> mMediaSourceOpened m then snd (Reset w (LOG LogDoReset m4) MEDIA_UNKNOWN) else m4)"
      unfolding m4_def
      by (subst SetOutputStreamPreferences_unfold) (simp only: True if_True snd_conv)
    have f: "mStreamCodecId m4 = GetCodecIDFromGuiName w c" "mStreamMaxFps m4 = fps"
      "mStreamQuality m4 = q" "mStreamBitRate m4 = br"
      "mStreamMaxPacketSize m4 = adjustMaxPacketSize w (GetCodecIDFromGuiName w c) p"
      "mRequestedStreamingResX m4 = fst (validatedRequest (GetCodecIDFromGuiName w c) rx ry)"
      "mRequestedStreamingResY m4 = snd (validatedRequest (GetCodecIDFromGuiName w c) rx ry)"
      "mMediaSourceOpened m4 = mMediaSourceOpened m"
      "mCurrentStreamingResX m4 = mCurrentStreamingResX m"
      "mCurrentStreamingResY m4 = mCurrentStreamingResY m"
      unfolding m4_def by simp_all
    show ?thesis
      apply (rule exI [where x = m4])
      apply (simp only: fr True r0 f simp_thms)
      done
  qed
qed


lemma setter_no_reset:
  assumes "\<not> (d \<and> mMediaSourceOpened m)"
  shows "mStreamCodecId (snd (SetOutputStreamPreferences w m c q br p d rx ry fps)) = GetCodecIDFromGuiName w c
       \<and> mStreamMaxFps (snd (SetOutputStreamPreferences w m c q br p d rx ry fps)) = fps
       \<and> mStreamQuality (snd (SetOutputStreamPreferences w m c q br p d rx ry fps)) = q
       \<and> mStreamBitRate (snd (SetOutputStreamPreferences w m c q br p d rx ry fps)) = br
       \<and> mStreamMaxPacketSize (snd (SetOutputStreamPreferences w m c q br p d rx ry fps))
            = adjustMaxPacketSize w (GetCodecIDFromGuiName w c) p
       \<and> mCurrentStreamingResX (snd (SetOutputStreamPreferences w m c q br p d rx ry fps)) = mCurrentStreamingResX m
       \<and> mCurrentStreamingResY (snd (SetOutputStreamPreferences w m c q br p d rx ry fps)) = mCurrentStreamingResY m"
proof -
  obtain m4 where
    s: "snd (SetOutputStreamPreferences w m c q br p d rx ry fps)
           = (if fst (SetOutputStreamPreferences w m c q br p d rx ry fps) \<and> d \<and> mMediaSourceOpened m
              then snd (Reset w (LOG LogDoReset m4) MEDIA_UNKNOWN) else m4)"
    and f: "mStreamCodecId m4 = GetCodecIDFromGuiName w c" "mStreamMaxFps m4 = fps"
      "mStreamQuality m4 = q" "mStreamBitRate m4 = br"
      "mStreamMaxPacketSize m4 = adjustMaxPacketSize w (GetCodecIDFromGuiName w c) p"
      "mCurrentStreamingResX m4 = mCurrentStreamingResX m"
      "mCurrentStreamingResY m4 = mCurrentStreamingResY m"
    using setter_state [of w m c q br p d rx ry fps] by blast
  from assms s have "snd (SetOutputStreamPreferences w m c q br p d rx ry fps) = m4"
    by (simp only: simp_thms if_False)
  then show ?thesis by (simp only: f simp_thms)
qed

lemma second_call:
  assumes "\<not> (d \<and> mMediaSourceOpened m)"
  shows "fst (SetOutputStreamPreferences w (snd (SetOutputStreamPreferences w m c q br p d rx ry fps))
               c q br p d rx ry fps)
         = (mCurrentStreamingResX m \<noteq> fst (validatedRequest (GetCodecIDFromGuiName w c) rx ry)
            \<or> mCurrentStreamingResY m \<noteq> snd (validatedRequest (GetCodecIDFromGuiName w c) rx ry))"
  by (simp only: setter_result preferencesDiffer_def setter_no_reset [OF assms] simp_thms)

text \<open>
  Claim C4, as amended. The setter returns true exactly when the stored codec, maximum frame
  rate, quality, bit rate or adjusted maximum packet size differs from the new value, or the
  resolution the muxer is currently streaming differs from the validated request. After a
  call that returned true the muxer holds the new codec, maximum frame rate, quality and
  adjusted maximum packet size and, as requested streaming resolution, the validated
  resolution, whatever \<open>doReset\<close> says; it holds the new bit rate too, except that the
  reopening of a reset replaces a bit rate of -1 by the default bit rate of the media type
  (90 * 1024 for video, 256 * 1024 for audio). The setter resets (close and reopen) exactly
  when it has stored the values, \<open>doReset\<close> is set and the session is open. The resolution
  is compared with the current streaming resolution, which only a reopen updates: when no
  reset runs, a second call with the same arguments returns true again exactly when the
  current streaming resolution differs from the validated request.
\<close>

theorem setter_changed_persist_reset:
  "fst (SetOutputStreamPreferences w m c q br p d rx ry fps)
     = (mStreamCodecId m \<noteq> GetCodecIDFromGuiName w c
        \<or> mStreamMaxFps m \<noteq> fps
        \<or> mStreamQuality m \<noteq> q
        \<or> mStreamBitRate m \<noteq> br
        \<or> mStreamMaxPacketSize m \<noteq> adjustMaxPacketSize w (GetCodecIDFromGuiName w c) p
        \<or> mCurrentStreamingResX m \<noteq> fst (validatedRequest (GetCodecIDFromGuiName w c) rx ry)
        \<or> mCurrentStreamingResY m \<noteq> snd (validatedRequest (GetCodecIDFromGuiName w c) rx ry))
   \<and> (\<exists>m4. snd (SetOutputStreamPreferences w m c q br p d rx ry fps)
           = (if fst (SetOutputStreamPreferences w m c q br p d rx ry fps) \<and> d \<and> mMediaSourceOpened m
              then snd (Reset w (LOG LogDoReset m4) MEDIA_UNKNOWN) else m4)
        \<and> mStreamCodecId m4 = GetCodecIDFromGuiName w c
        \<and> mStreamMaxFps m4 = fps
        \<and> mStreamQuality m4 = q
        \<and> mStreamBitRate m4 = br
        \<and> mStreamMaxPacketSize m4 = adjustMaxPacketSize w (GetCodecIDFromGuiName w c) p
        \<and> (fst (SetOutputStreamPreferences w m c q br p d rx ry fps) \<longrightarrow>
              mRequestedStreamingResX m4 = fst (validatedRequest (GetCodecIDFromGuiName w c) rx ry)
            \<and> mRequestedStreamingResY m4 = snd (validatedRequest (GetCodecIDFromGuiName w c) rx ry))
        \<and> mMediaSourceOpened m4 = mMediaSourceOpened m)
   \<and> mStreamCodecId (snd (SetOutputStreamPreferences w m c q br p d rx ry fps))
        = GetCodecIDFromGuiName w c
   \<and> mStreamMaxFps (snd (SetOutputStreamPreferences w m c q br p d rx ry fps)) = fps
   \<and> mStreamQuality (snd (SetOutputStreamPreferences w m c q br p d rx ry fps)) = q
   \<and> mStreamMaxPacketSize (snd (SetOutputStreamPreferences w m c q br p d rx ry fps))
        = adjustMaxPacketSize w (GetCodecIDFromGuiName w c) p
   \<and> (fst (SetOutputStreamPreferences w m c q br p d rx ry fps) \<longrightarrow>
        mRequestedStreamingResX (snd (SetOutputStreamPreferences w m c q br p d rx ry fps))
          = fst (validatedRequest (GetCodecIDFromGuiName w c) rx ry)
        \<and> mRequestedStreamingResY (snd (SetOutputStreamPreferences w m c q br p d rx ry fps))
          = snd (validatedRequest (GetCodecIDFromGuiName w c) rx ry))
   \<and> mStreamBitRate (snd (SetOutputStreamPreferences w m c q br p d rx ry fps))
        = (if fst (SetOutputStreamPreferences w m c q br p d rx ry fps) \<and> d \<and> mMediaSourceOpened m
              \<and> br = -1 \<and> mMediaType m = MEDIA_VIDEO then 90 * 1024
           else if fst (SetOutputStreamPreferences w m c q br p d rx ry fps) \<and> d \<and> mMediaSourceOpened m
              \<and> br = -1 \<and> mMediaType m = MEDIA_AUDIO then 256 * 1024
           else br)
   \<and> (\<not> (d \<and> mMediaSourceOpened m) \<longrightarrow>
        fst (SetOutputStreamPreferences w (snd (SetOutputStreamPreferences w m c q br p d rx ry fps))
               c q br p d rx ry fps)
         = (mCurrentStreamingResX m \<noteq> fst (validatedRequest (GetCodecIDFromGuiName w c) rx ry)
            \<or> mCurrentStreamingResY m \<noteq> snd (validatedRequest (GetCodecIDFromGuiName w c) rx ry)))"
proof (intro conjI impI)
  show "mStreamCodecId (snd (SetOutputStreamPreferences w m c q br p d rx ry fps))
        = GetCodecIDFromGuiName w c"
    by (rule stored_codec)
  show "mStreamMaxFps (snd (SetOutputStreamPreferences w m c q br p d rx ry fps)) = fps"
    by (rule stored_fps)
  show "mStreamQuality (snd (SetOutputStreamPreferences w m c q br p d rx ry fps)) = q"
    by (rule stored_quality)
  show "mStreamMaxPacketSize (snd (SetOutputStreamPreferences w m c q br p d rx ry fps))
        = adjustMaxPacketSize w (GetCodecIDFromGuiName w c) p"
    by (rule stored_packet)
  show "mStreamBitRate (snd (SetOutputStreamPreferences w m c q br p d rx ry fps))
        = (if fst (SetOutputStreamPreferences w m c q br p d rx ry fps) \<and> d \<and> mMediaSourceOpened m
              \<and> br = -1 \<and> mMediaType m = MEDIA_VIDEO then 90 * 1024
           else if fst (SetOutputStreamPreferences w m c q br p d rx ry fps) \<and> d \<and> mMediaSourceOpened m
              \<and> br = -1 \<and> mMediaType m = MEDIA_AUDIO then 256 * 1024
           else br)"
    by (rule stored_bitrate)
next
  assume r: "fst (SetOutputStreamPreferences w m c q br p d rx ry fps)"
  show "mRequestedStreamingResX (snd (SetOutputStreamPreferences w m c q br p d rx ry fps))
          = fst (validatedRequest (GetCodecIDFromGuiName w c) rx ry)"
    "mRequestedStreamingResY (snd (SetOutputStreamPreferences w m c q br p d rx ry fps))
          = snd (validatedRequest (GetCodecIDFromGuiName w c) rx ry)"
    using stored_resolution [OF r] by simp_all
next
  show "fst (SetOutputStreamPreferences w m c q br p d rx ry fps)
     = (mStreamCodecId m \<noteq> GetCodecIDFromGuiName w c
        \<or> mStreamMaxFps m \<noteq> fps
        \<or> mStreamQuality m \<noteq> q
        \<or> mStreamBitRate m \<noteq> br
        \<or> mStreamMaxPacketSize m \<noteq> adjustMaxPacketSize w (GetCodecIDFromGuiName w c) p
        \<or> mCurrentStreamingResX m \<noteq> fst (validatedRequest (GetCodecIDFromGuiName w c) rx ry)
        \<or> mCurrentStreamingResY m \<noteq> snd (validatedRequest (GetCodecIDFromGuiName w c) rx ry))"
    by (simp only: setter_result preferencesDiffer_def)
next
  show "\<exists>m4. snd (SetOutputStreamPreferences w m c q br p d rx ry fps)
           = (if fst (SetOutputStreamPreferences w m c q br p d rx ry fps) \<and> d \<and> mMediaSourceOpened m
              then snd (Reset w (LOG LogDoReset m4) MEDIA_UNKNOWN) else m4)
        \<and> mStreamCodecId m4 = GetCodecIDFromGuiName w c
        \<and> mStreamMaxFps m4 = fps
        \<and> mStreamQuality m4 = q
        \<and> mStreamBitRate m4 = br
        \<and> mStreamMaxPacketSize m4 = adjustMaxPacketSize w (GetCodecIDFromGuiName w c) p
        \<and> (fst (SetOutputStreamPreferences w m c q br p d rx ry fps) \<longrightarrow>
              mRequestedStreamingResX m4 = fst (validatedRequest (GetCodecIDFromGuiName w c) rx ry)
            \<and> mRequestedStreamingResY m4 = snd (validatedRequest (GetCodecIDFromGuiName w c) rx ry))
        \<and> mMediaSourceOpened m4 = mMediaSourceOpened m"
    using setter_state [of w m c q br p d rx ry fps] by blast
next
  assume "\<not> (d \<and> mMediaSourceOpened m)"
  then show "fst (SetOutputStreamPreferences w (snd (SetOutputStreamPreferences w m c q br p d rx ry fps))
               c q br p d rx ry fps)
         = (mCurrentStreamingResX m \<noteq> fst (validatedRequest (GetCodecIDFromGuiName w c) rx ry)
            \<or> mCurrentStreamingResY m \<noteq> snd (validatedRequest (GetCodecIDFromGuiName w c) rx ry))"
    by (rule second_call)
qed

lemma sample_H264_request:
  "GetCodecIDFromGuiName (sampleWorld es) ''H.264'' = AV_CODEC_ID_H264"
  "validatedRequest AV_CODEC_ID_H264 640 480 = (640, 480)"
  "mMediaSourceOpened (newMuxer s) = False"
  "mCurrentStreamingResX (newMuxer s) = 0"
  "mStreamCodecId (newMuxer s) = AV_CODEC_ID_NONE"
  by (simp_all add: sampleWorld_def guiCodecId_def validatedRequest_def roundUpTo2_nonneg newMuxer_def)

text \<open>
  The claim as stated fails: on a fresh, closed muxer the second call with the same
  arguments returns true as well.
\<close>

theorem setter_second_call_counterexample:
  "fst (SetOutputStreamPreferences (sampleWorld [AV_CODEC_ID_H264])
         (snd (SetOutputStreamPreferences (sampleWorld [AV_CODEC_ID_H264]) (newMuxer None)
                 ''H.264'' 20 (-1) 1400 True 640 480 0))
         ''H.264'' 20 (-1) 1400 True 640 480 0)"
proof -
  have n: "\<not> (True \<and> mMediaSourceOpened (newMuxer None))"
    by (simp add: sample_H264_request)
  show ?thesis
    by (simp add: second_call [OF n] sample_H264_request)
qed

theorem setter_changed_persist_reset_witness:
  "\<not> (True \<and> mMediaSourceOpened (newMuxer None))
   \<and> fst (SetOutputStreamPreferences (sampleWorld [AV_CODEC_ID_H264]) (newMuxer None)
                 ''H.264'' 20 (-1) 1400 True 640 480 0)
   \<and> (fst (SetOutputStreamPreferences (sampleWorld [AV_CODEC_ID_H264])
         (snd (SetOutputStreamPreferences (sampleWorld [AV_CODEC_ID_H264]) (newMuxer None)
                 ''H.264'' 20 (-1) 1400 True 640 480 0))
         ''H.264'' 20 (-1) 1400 True 640 480 0)
       = (mCurrentStreamingResX (newMuxer None) \<noteq> 640 \<or> mCurrentStreamingResY (newMuxer None) \<noteq> 480))
   \<and> mRequestedStreamingResX (snd (SetOutputStreamPreferences (sampleWorld [AV_CODEC_ID_H264])
         (newMuxer None) ''H.264'' 20 (-1) 1400 True 640 480 0)) = 640
   \<and> mStreamBitRate (snd (SetOutputStreamPreferences (sampleWorld [AV_CODEC_ID_H264])
         (newMuxer None) ''H.264'' 20 (-1) 1400 True 640 480 0)) = -1
   \<and> mMediaSourceOpened videoMuxer
   \<and> fst (SetOutputStreamPreferences (sampleWorld [AV_CODEC_ID_H264]) videoMuxer
                 ''H.264'' 20 (-1) 1400 True 640 480 0)
   \<and> mStreamBitRate (snd (SetOutputStreamPreferences (sampleWorld [AV_CODEC_ID_H264]) videoMuxer
                 ''H.264'' 20 (-1) 1400 True 640 480 0)) = 92160"
proof -
  have v: "mMediaSourceOpened videoMuxer" "mMediaType videoMuxer = MEDIA_VIDEO"
    "mStreamMaxPacketSize videoMuxer = 500"
    by (simp_all add: videoMuxer_def newMuxer_def)
  have p: "adjustMaxPacketSize (sampleWorld [AV_CODEC_ID_H264]) AV_CODEC_ID_H264 1400 = 1320"
    by (simp add: adjustMaxPacketSize_def int32_def sampleWorld_def)
  show ?thesis
    using setter_changed_persist_reset [of "sampleWorld [AV_CODEC_ID_H264]" "newMuxer None"
          "''H.264''" 20 "-1" 1400 True 640 480 0]
      setter_changed_persist_reset [of "sampleWorld [AV_CODEC_ID_H264]" videoMuxer
          "''H.264''" 20 "-1" 1400 True 640 480 0]
    by (simp add: sample_H264_request v p)
qed

subsection \<open>The frame-rate gate\<close>

lemma BelowMaxFps_fields [simp]:
  "mStreamMaxFps (snd (BelowMaxFps w m k)) = mStreamMaxFps m"
  by (simp add: BelowMaxFps_def Let_def)

lemma BelowMaxFps_admit:
  "mStreamMaxFps m \<noteq> 0 \<Longrightarrow>
     fst (BelowMaxFps w m k)
       = (GetTimeStamp w - mStreamMaxFps_LastFrame_Timestamp m > 1000000 sdiv mStreamMaxFps m)"
  by (simp add: BelowMaxFps_def Let_def)

lemma BelowMaxFps_reference:
  "mStreamMaxFps m \<noteq> 0 \<Longrightarrow>
     mStreamMaxFps_LastFrame_Timestamp (snd (BelowMaxFps w m k))
       = (if fst (BelowMaxFps w m k)
          then mStreamMaxFps_LastFrame_Timestamp m + 1000000 sdiv mStreamMaxFps m
          else mStreamMaxFps_LastFrame_Timestamp m)"
  by (simp add: BelowMaxFps_def Let_def)

lemma driveGate_bound:
  assumes "mStreamMaxFps m \<noteq> 0" and "0 < 1000000 sdiv mStreamMaxFps m"
    and "\<forall>t \<in> set ts. t - mStreamMaxFps_LastFrame_Timestamp m \<le> S"
  shows "fst (driveGate w m ts) = 0
       \<or> int (fst (driveGate w m ts)) * (1000000 sdiv mStreamMaxFps m) < S"
  using assms
proof (induction ts arbitrary: m S)
  case Nil
  then show ?case by simp
next
  case (Cons t ts)
  let ?w = "w\<lparr>GetTimeStamp := t\<rparr>"
  let ?thr = "1000000 sdiv mStreamMaxFps m"
  let ?m1 = "snd (BelowMaxFps ?w m 0)"
  let ?n = "fst (driveGate w ?m1 ts)"
  have fps1: "mStreamMaxFps ?m1 = mStreamMaxFps m" by simp
  have unf: "fst (driveGate w m (t # ts)) = (if fst (BelowMaxFps ?w m 0) then 1 else 0) + ?n"
    by (simp add: split_beta Let_def)
  show ?case
  proof (cases "fst (BelowMaxFps ?w m 0)")
    case False
    then have ref: "mStreamMaxFps_LastFrame_Timestamp ?m1 = mStreamMaxFps_LastFrame_Timestamp m"
      using Cons.prems(1) by (simp add: BelowMaxFps_reference)
    have "?n = 0 \<or> int ?n * (1000000 sdiv mStreamMaxFps ?m1) < S"
      by (rule Cons.IH) (use Cons.prems ref fps1 in auto)
    then show ?thesis using False unf by (simp add: fps1)
  next
    case True
    then have gt: "?thr < t - mStreamMaxFps_LastFrame_Timestamp m"
      using Cons.prems(1) by (simp add: BelowMaxFps_admit)
    have ref: "mStreamMaxFps_LastFrame_Timestamp ?m1 = mStreamMaxFps_LastFrame_Timestamp m + ?thr"
      using True Cons.prems(1) by (simp add: BelowMaxFps_reference)
    have tS: "t - mStreamMaxFps_LastFrame_Timestamp m \<le> S" using Cons.prems(3) by simp
    have "?n = 0 \<or> int ?n * (1000000 sdiv mStreamMaxFps ?m1) < S - ?thr"
    proof (rule Cons.IH)
      show "mStreamMaxFps ?m1 \<noteq> 0" using Cons.prems(1) by simp
      show "0 < 1000000 sdiv mStreamMaxFps ?m1" using Cons.prems(2) by simp
      show "\<forall>t\<in>set ts. t - mStreamMaxFps_LastFrame_Timestamp ?m1 \<le> S - ?thr"
        using Cons.prems(3) ref by auto
    qed
    then have "int (Suc ?n) * ?thr < S"
    proof
      assume "?n = 0"
      then show ?thesis using gt tS by simp
    next
      assume "int ?n * (1000000 sdiv mStreamMaxFps ?m1) < S - ?thr"
      then show ?thesis by (simp add: fps1 algebra_simps)
    qed
    then show ?thesis using True unf by simp
  qed
qed

lemma threshold_10: "(1000000::int) sdiv 10 = 100000"
  by (simp add: signed_divide_int_def)

text \<open>
  Claim C8, as amended. With no maximum frame rate configured the gate admits every call.
  Otherwise it admits exactly when the time since the reference timestamp exceeds 1000000
  microseconds divided by the maximum frame rate, and on admission the new reference is the
  current time minus the (positive) overshoot. Driven with clock values that all lie within
  one second after the reference timestamp of the gate, a gate configured for 10 frames per
  second admits at most 10 calls.
\<close>

theorem BelowMaxFps_gate:
  "(mStreamMaxFps m = 0 \<longrightarrow> fst (BelowMaxFps w m k))
   \<and> (mStreamMaxFps m \<noteq> 0 \<longrightarrow>
        fst (BelowMaxFps w m k)
          = (GetTimeStamp w - mStreamMaxFps_LastFrame_Timestamp m > 1000000 sdiv mStreamMaxFps m))
   \<and> (mStreamMaxFps m \<noteq> 0 \<and> fst (BelowMaxFps w m k) \<longrightarrow>
        mStreamMaxFps_LastFrame_Timestamp (snd (BelowMaxFps w m k))
          = GetTimeStamp w
            - (GetTimeStamp w - mStreamMaxFps_LastFrame_Timestamp m - 1000000 sdiv mStreamMaxFps m)
        \<and> 0 < GetTimeStamp w - mStreamMaxFps_LastFrame_Timestamp m - 1000000 sdiv mStreamMaxFps m)
   \<and> (mStreamMaxFps m = 10 \<and> (\<forall>t \<in> set ts. t - mStreamMaxFps_LastFrame_Timestamp m \<le> 1000000) \<longrightarrow>
        fst (driveGate w m ts) \<le> 10)"
proof (intro conjI impI)
  assume "mStreamMaxFps m = 0"
  then show "fst (BelowMaxFps w m k)" by (simp add: BelowMaxFps_def)
next
  assume "mStreamMaxFps m \<noteq> 0"
  then show "fst (BelowMaxFps w m k)
          = (GetTimeStamp w - mStreamMaxFps_LastFrame_Timestamp m > 1000000 sdiv mStreamMaxFps m)"
    by (rule BelowMaxFps_admit)
next
  assume a: "mStreamMaxFps m \<noteq> 0 \<and> fst (BelowMaxFps w m k)"
  then show "mStreamMaxFps_LastFrame_Timestamp (snd (BelowMaxFps w m k))
          = GetTimeStamp w
            - (GetTimeStamp w - mStreamMaxFps_LastFrame_Timestamp m - 1000000 sdiv mStreamMaxFps m)"
    by (simp add: BelowMaxFps_reference)
  from a have nz: "mStreamMaxFps m \<noteq> 0" and ad: "fst (BelowMaxFps w m k)" by simp_all
  from ad show "0 < GetTimeStamp w - mStreamMaxFps_LastFrame_Timestamp m - 1000000 sdiv mStreamMaxFps m"
    unfolding BelowMaxFps_admit [OF nz] by simp
next
  assume a: "mStreamMaxFps m = 10 \<and> (\<forall>t \<in> set ts. t - mStreamMaxFps_LastFrame_Timestamp m \<le> 1000000)"
  then have "fst (driveGate w m ts) = 0
       \<or> int (fst (driveGate w m ts)) * (1000000 sdiv mStreamMaxFps m) < 1000000"
    by (intro driveGate_bound) (simp_all add: threshold_10)
  then show "fst (driveGate w m ts) \<le> 10"
    using a by (auto simp: threshold_10)
qed

theorem BelowMaxFps_gate_witness:
  "mStreamMaxFps (newMuxer None) = 0
   \<and> fst (BelowMaxFps (sampleWorld []) (newMuxer None) 0)
   \<and> mStreamMaxFps gateMuxer \<noteq> 0
   \<and> fst (BelowMaxFps ((sampleWorld [])\<lparr>GetTimeStamp := 250000\<rparr>) gateMuxer 0)
   \<and> mStreamMaxFps_LastFrame_Timestamp (snd (BelowMaxFps ((sampleWorld [])\<lparr>GetTimeStamp := 250000\<rparr>) gateMuxer 0))
        = 100000
   \<and> mStreamMaxFps gateMuxer = 10
   \<and> list_all (\<lambda>t. t - mStreamMaxFps_LastFrame_Timestamp gateMuxer \<le> 1000000)
        [50000, 100001, 150000, 200001, 200002, 999999, 1000000]
   \<and> fst (driveGate (sampleWorld []) gateMuxer [50000, 100001, 150000, 200001, 200002, 999999, 1000000]) \<le> 10"
  using BelowMaxFps_gate [of "newMuxer None" "sampleWorld []" 0 "[]"]
    BelowMaxFps_gate [of gateMuxer "(sampleWorld [])\<lparr>GetTimeStamp := 250000\<rparr>" 0
       "[50000, 100001, 150000, 200001, 200002, 999999, 1000000]"]
  by (simp add: gateMuxer_def newMuxer_def threshold_10)

text \<open>
  The claim as stated fails: the bound needs a reference timestamp that is not older than
  the clock values. An admission moves the reference forward by one interval only, so a gate
  configured for 10 frames per second whose reference is 0 admits every one of 21 calls made
  between second 5 and second 6 of the clock.
\<close>

theorem BelowMaxFps_stale_reference_counterexample:
  "mStreamMaxFps gateMuxer = 10
   \<and> mStreamMaxFps_LastFrame_Timestamp gateMuxer = 0
   \<and> fst (driveGate (sampleWorld []) gateMuxer
          [5000000, 5050000, 5100000, 5150000, 5200000, 5250000, 5300000,
           5350000, 5400000, 5450000, 5500000, 5550000, 5600000, 5650000,
           5700000, 5750000, 5800000, 5850000, 5900000, 5950000, 6000000]) = 21"
  by (simp add: gateMuxer_def newMuxer_def BelowMaxFps_def threshold_10 Let_def)

subsection \<open>The transcode thread: timestamps\<close>

lemma encodeVideoFrame_after_nonzero:
  assumes "encodeVideoFrame w t e = Inr t'" and "tLastVideoEncoderFrameTimestamp t \<noteq> 0"
  shows "tLastVideoEncoderFrameTimestamp t < tLastVideoEncoderFrameTimestamp t'
       \<and> relayedSync t' = relayedSync t @ [(entryTimestamp e, tLastVideoEncoderFrameTimestamp t')]"
  using assms
  by (auto simp: encodeVideoFrame_def Let_def split: option.splits if_splits)

text \<open>
  Claim C1 says that the presentation timestamps relayed to the sinks are strictly
  increasing, because a computed timestamp that is not above the last one is replaced by the
  last one plus 1. The check of the transcode thread runs only when the last timestamp is
  not 0, and 0 is also the timestamp of the first frame. On a source with a variable output
  frame rate two chunks that arrive 400 microseconds apart are both relayed with the
  timestamp 0.
\<close>

theorem video_timestamp_repeats_after_zero:
  "map_sum id (\<lambda>t. map snd (relayedSync t))
     (RunIterations (sampleWorld [AV_CODEC_ID_H264]) 2
        (startTranscoder videoMuxer 1 [chunkAt 5000, chunkAt 5400]))
   = Inr [0, 0]"
  by code_simp

theorem video_timestamp_repeats_after_zero_witness:
  "\<not> isl (RunIterations (sampleWorld [AV_CODEC_ID_H264]) 2
            (startTranscoder videoMuxer 1 [chunkAt 5000, chunkAt 5400]))
   \<and> map snd (relayedSync (projr (RunIterations (sampleWorld [AV_CODEC_ID_H264]) 2
            (startTranscoder videoMuxer 1 [chunkAt 5000, chunkAt 5400])))) = [0, 0]"
  using video_timestamp_repeats_after_zero
  by (cases "RunIterations (sampleWorld [AV_CODEC_ID_H264]) 2
               (startTranscoder videoMuxer 1 [chunkAt 5000, chunkAt 5400])") simp_all

lemma transcodeEntry_video_fifo:
  "encodeVideoFrame w t e = Inr t' \<Longrightarrow> mEncoderFifo t' = mEncoderFifo t"
  by (auto simp: encodeVideoFrame_def Let_def split: option.splits)

lemma encodeOrSkipSlice_fifo [simp]:
  "mEncoderFifo (encodeOrSkipSlice w t) = mEncoderFifo t"
  by (simp add: encodeOrSkipSlice_def Let_def split: prod.splits)

lemma drainResampleFifo_fifo:
  "drainResampleFifo w t = Some t' \<Longrightarrow> mEncoderFifo t' = mEncoderFifo t"
proof (induction rule: drainResampleFifo.raw_induct [rotated 1, consumes 1])
  case (1 f w t t')
  then show ?case by (auto split: if_splits)
qed

lemma encodeAudioChunk_fifo:
  "encodeAudioChunk w t e = Inr t' \<Longrightarrow> mEncoderFifo t' = mEncoderFifo t"
  by (auto simp: encodeAudioChunk_def Let_def split: if_splits prod.splits option.splits
           dest!: drainResampleFifo_fifo)

lemma transcodeEntry_fifo:
  "transcodeEntry w t e = Inr t' \<Longrightarrow> mEncoderFifo t' = mEncoderFifo t"
  by (auto simp: transcodeEntry_def split: if_splits MediaType.splits
           dest: transcodeEntry_video_fifo encodeAudioChunk_fifo)



subsection \<open>The transcode thread: silence suppression\<close>








lemma encodeOrSkipSlice_keeps [simp]:
  "mRelayingSkipAudioSilence (mux (encodeOrSkipSlice w t)) = mRelayingSkipAudioSilence (mux t)"
  "mOutputAudioChannels (mux (encodeOrSkipSlice w t)) = mOutputAudioChannels (mux t)"
  "mOutputAudioFormat (mux (encodeOrSkipSlice w t)) = mOutputAudioFormat (mux t)"
  "frame_size (mux (encodeOrSkipSlice w t)) = frame_size (mux t)"
  "mResampleFifo (encodeOrSkipSlice w t) = fst (readChannels w t)"
  by (cases "readChannels w t"; simp add: encodeOrSkipSlice_def Let_def)+








subsection \<open>The transcode thread: the overload check\<close>








subsection \<open>The device selector and the frame rate of the open calls\<close>

text \<open>
  Claim C6 says that a selection that switches away from an open source reports failure and
  leaves the active source as it was when no candidate can be opened, and reports success
  with the later candidate active when the first ones fail to open and a later one would
  open. The loop that follows the failed open puts the old source back and then only tries
  to open that old source again, while it advances the iterator and dereferences it. With
  three registered sources, source 0 open and active, source 1 accepting the device: when
  only source 2 can be opened, and when no source can be opened, the call runs past the end
  of the source list; when sources 0 and 2 can be opened it reports success with the old
  source 0 active.
\<close>

theorem select_device_reopens_old_source_only:
  "map_sum id (\<lambda>(r, n, s). (r, mMediaSource (smux s)))
     (SelectDevice (openableWorld [2]) threeSources ''camera 1'' MEDIA_VIDEO) = Inl IteratorPastEnd
   \<and> map_sum id (\<lambda>(r, n, s). (r, mMediaSource (smux s)))
     (SelectDevice (openableWorld []) threeSources ''camera 1'' MEDIA_VIDEO) = Inl IteratorPastEnd
   \<and> map_sum id (\<lambda>(r, n, s). (r, mMediaSource (smux s)))
     (SelectDevice (openableWorld [0, 2]) threeSources ''camera 1'' MEDIA_VIDEO) = Inr (True, Some 0)"
  by code_simp

theorem select_device_reopens_old_source_only_witness:
  "isl (SelectDevice (openableWorld [2]) threeSources ''camera 1'' MEDIA_VIDEO)
   \<and> isl (SelectDevice (openableWorld []) threeSources ''camera 1'' MEDIA_VIDEO)
   \<and> \<not> isl (SelectDevice (openableWorld [0, 2]) threeSources ''camera 1'' MEDIA_VIDEO)"
proof -
  have l: "isl x" if "map_sum id f x = Inl e" for x :: "run_error + (bool \<times> bool \<times> selector)"
    and f :: "bool \<times> bool \<times> selector \<Rightarrow> bool \<times> source option" and e
    using that by (cases x) simp_all
  have r: "\<not> isl x" if "map_sum id f x = Inr v" for x :: "run_error + (bool \<times> bool \<times> selector)"
    and f :: "bool \<times> bool \<times> selector \<Rightarrow> bool \<times> source option" and v
    using that by (cases x) simp_all
  note c = select_device_reopens_old_source_only
  show ?thesis
    using l [OF conjunct1 [OF c]] l [OF conjunct1 [OF conjunct2 [OF c]]]
      r [OF conjunct2 [OF conjunct2 [OF c]]]
    by simp
qed

lemma clamp_constants:
  "double_29_97 < 29.97" "float_29_97 < double_29_97" "5 < float_29_97"
  by (simp_all add: double_29_97_def float_29_97_def)

lemma clampFps_val:
  "clampFps (FloatVal r)
     = FloatVal (if r > double_29_97 then float_29_97 else if r < 5 then 5 else r)"
  using clamp_constants by (simp add: clampFps_def float_gt_def float_lt_def Let_def)

lemma clampFps_nan: "clampFps FloatNaN = FloatNaN"
  by (simp add: clampFps_def float_gt_def float_lt_def)

lemma clampFps_idem: "clampFps (clampFps f) = clampFps f"
proof (cases f)
  case (FloatVal r)
  then show ?thesis using clamp_constants by (simp add: clampFps_val)
next
  case FloatNaN
  then show ?thesis by (simp add: clampFps_nan)
qed

lemma clampFps_between: "float_between 5 29.97 (clampFps (FloatVal r))"
  using clamp_constants by (simp add: clampFps_val float_between_def)

lemma float_ne_pick: "(if float_ne a b then a else b) = a"
  by (cases a; cases b) (simp_all add: float_ne_def)

lemma muxerFps_eq: "muxerFps w m f = clampFps (sessionFps w m f)"
  by (simp add: muxerFps_def sessionFps_def Let_def float_ne_pick split: option.splits)

lemma OpenVideoMuxer_rates:
  assumes "\<not> mMediaSourceOpened m"
  shows "mInputFrameRate (snd (OpenVideoMuxer w m x y f)) = muxerFps w m f"
    and "mOutputFrameRate (snd (OpenVideoMuxer w m x y f)) = muxerFps w m f"
  using assms
  by (auto simp: OpenVideoMuxer_def Let_def muxer_steps split: prod.splits)

lemma OpenVideoMuxer_opened:
  assumes "mMediaSourceOpened m"
  shows "\<not> fst (OpenVideoMuxer w m x y f)"
    and "mInputFrameRate (snd (OpenVideoMuxer w m x y f)) = mInputFrameRate m"
    and "mOutputFrameRate (snd (OpenVideoMuxer w m x y f)) = mOutputFrameRate m"
  using assms by (simp_all add: OpenVideoMuxer_def Let_def)

lemma OpenVideoGrabDevice_refused:
  assumes "mMediaSource m = Some s" and "\<not> sourceOpenVideoGrabDevice w s x y (clampFps f)"
  shows "OpenVideoGrabDevice w m x y f = (False, m\<lparr>mMediaType := MEDIA_VIDEO\<rparr>)"
  using assms by (simp add: OpenVideoGrabDevice_def Let_def)

lemma OpenVideoGrabDevice_source_closed:
  assumes "mMediaSource m = Some s" and "sourceOpenVideoGrabDevice w s x y (clampFps f)"
    and "\<not> mMediaSourceOpened m"
  shows "OpenVideoGrabDevice w m x y f
           = (True, snd (OpenVideoMuxer w
                (m\<lparr>mMediaType := MEDIA_VIDEO, mInputFrameRate := GetInputFrameRate w s,
                    mOutputFrameRate := GetOutputFrameRate w s\<rparr>) x y (clampFps f)))"
  using assms by (simp add: OpenVideoGrabDevice_def Let_def)

lemma OpenVideoGrabDevice_source_opened:
  assumes "mMediaSource m = Some s" and "sourceOpenVideoGrabDevice w s x y (clampFps f)"
    and "mMediaSourceOpened m"
  shows "OpenVideoGrabDevice w m x y f
           = (False, m\<lparr>mMediaType := MEDIA_VIDEO, mInputFrameRate := GetInputFrameRate w s,
                         mOutputFrameRate := GetOutputFrameRate w s\<rparr>)"
  using assms by (simp add: OpenVideoGrabDevice_def Let_def)

lemma OpenVideoGrabDevice_no_source:
  assumes "mMediaSource m = None"
  shows "OpenVideoGrabDevice w m x y f
           = (if mMediaSourceOpened m then (False, m\<lparr>mMediaType := MEDIA_VIDEO\<rparr>)
              else OpenVideoMuxer w (m\<lparr>mMediaType := MEDIA_VIDEO\<rparr>) x y (clampFps f))"
  using assms by (simp add: OpenVideoGrabDevice_def Let_def)

text \<open>
  Claim C10, as amended. The bound the open calls apply turns a value above 29.97 into the
  \<^verbatim>\<open>float\<close> nearest to 29.97 and a value below 5 into 5, so a number leaves it between 5 and
  29.97; not-a-number passes unchanged. \<^verbatim>\<open>OpenVideoMuxer\<close> on a muxer that is not open
  takes the configured maximum frame rate when there is one, else the output rate of the
  base source when there is one, else the requested rate, bounds that value and stores it
  as input and as output frame rate of the session; on an open muxer it fails and stores no
  rate. \<^verbatim>\<open>OpenVideoGrabDevice\<close> bounds the requested rate and hands the bounded value to the
  base source and to \<^verbatim>\<open>OpenVideoMuxer\<close>: when the source refuses it, the call fails and the
  rates stay; on a muxer that is not open the call then stores what \<^verbatim>\<open>OpenVideoMuxer\<close> stores;
  on an open muxer it fails, and with a base source it leaves the rates the source reports,
  which are not bounded.
\<close>

theorem frame_rate_clamped_on_open:
  "clampFps (FloatVal r)
     = FloatVal (if r > double_29_97 then float_29_97 else if r < 5 then 5 else r)
   \<and> double_29_97 < 29.97 \<and> float_29_97 < double_29_97 \<and> 29.97 - float_29_97 < 1 / 1000000
   \<and> float_between 5 29.97 (clampFps (FloatVal r))
   \<and> clampFps FloatNaN = FloatNaN
   \<and> (\<not> mMediaSourceOpened m \<longrightarrow>
        mInputFrameRate (snd (OpenVideoMuxer w m x y f))
          = clampFps (if mStreamMaxFps m \<noteq> 0 then FloatVal (real_of_int (mStreamMaxFps m))
                      else case mMediaSource m of None \<Rightarrow> f | Some s \<Rightarrow> GetOutputFrameRate w s)
        \<and> mOutputFrameRate (snd (OpenVideoMuxer w m x y f))
          = mInputFrameRate (snd (OpenVideoMuxer w m x y f)))
   \<and> (mMediaSourceOpened m \<longrightarrow>
        \<not> fst (OpenVideoMuxer w m x y f)
        \<and> mInputFrameRate (snd (OpenVideoMuxer w m x y f)) = mInputFrameRate m
        \<and> mOutputFrameRate (snd (OpenVideoMuxer w m x y f)) = mOutputFrameRate m)
   \<and> (mMediaSource m = Some s \<and> \<not> sourceOpenVideoGrabDevice w s x y (clampFps f) \<longrightarrow>
        \<not> fst (OpenVideoGrabDevice w m x y f)
        \<and> mInputFrameRate (snd (OpenVideoGrabDevice w m x y f)) = mInputFrameRate m
        \<and> mOutputFrameRate (snd (OpenVideoGrabDevice w m x y f)) = mOutputFrameRate m)
   \<and> (mMediaSource m = Some s \<and> sourceOpenVideoGrabDevice w s x y (clampFps f)
        \<and> \<not> mMediaSourceOpened m \<longrightarrow>
        fst (OpenVideoGrabDevice w m x y f)
        \<and> mInputFrameRate (snd (OpenVideoGrabDevice w m x y f))
          = clampFps (if mStreamMaxFps m \<noteq> 0 then FloatVal (real_of_int (mStreamMaxFps m))
                      else GetOutputFrameRate w s)
        \<and> mOutputFrameRate (snd (OpenVideoGrabDevice w m x y f))
          = mInputFrameRate (snd (OpenVideoGrabDevice w m x y f)))
   \<and> (mMediaSource m = Some s \<and> sourceOpenVideoGrabDevice w s x y (clampFps f)
        \<and> mMediaSourceOpened m \<longrightarrow>
        \<not> fst (OpenVideoGrabDevice w m x y f)
        \<and> mInputFrameRate (snd (OpenVideoGrabDevice w m x y f)) = GetInputFrameRate w s
        \<and> mOutputFrameRate (snd (OpenVideoGrabDevice w m x y f)) = GetOutputFrameRate w s)
   \<and> (mMediaSource m = None \<and> \<not> mMediaSourceOpened m \<longrightarrow>
        mInputFrameRate (snd (OpenVideoGrabDevice w m x y f))
          = clampFps (if mStreamMaxFps m \<noteq> 0 then FloatVal (real_of_int (mStreamMaxFps m)) else f)
        \<and> mOutputFrameRate (snd (OpenVideoGrabDevice w m x y f))
          = mInputFrameRate (snd (OpenVideoGrabDevice w m x y f)))
   \<and> (mMediaSource m = None \<and> mMediaSourceOpened m \<longrightarrow>
        \<not> fst (OpenVideoGrabDevice w m x y f)
        \<and> mInputFrameRate (snd (OpenVideoGrabDevice w m x y f)) = mInputFrameRate m
        \<and> mOutputFrameRate (snd (OpenVideoGrabDevice w m x y f)) = mOutputFrameRate m)"
proof -
  have c1: "clampFps (FloatVal r)
     = FloatVal (if r > double_29_97 then float_29_97 else if r < 5 then 5 else r)"
    by (rule clampFps_val)
  have c2: "double_29_97 < 29.97" "float_29_97 < double_29_97" "29.97 - float_29_97 < 1 / 1000000"
    by (simp_all add: double_29_97_def float_29_97_def)
  have c3: "float_between 5 29.97 (clampFps (FloatVal r))" by (rule clampFps_between)
  have c4: "clampFps FloatNaN = FloatNaN" by (rule clampFps_nan)
  have m1: "mInputFrameRate (snd (OpenVideoMuxer w m x y f))
          = clampFps (if mStreamMaxFps m \<noteq> 0 then FloatVal (real_of_int (mStreamMaxFps m))
                      else case mMediaSource m of None \<Rightarrow> f | Some s \<Rightarrow> GetOutputFrameRate w s)
        \<and> mOutputFrameRate (snd (OpenVideoMuxer w m x y f))
          = mInputFrameRate (snd (OpenVideoMuxer w m x y f))"
    if "\<not> mMediaSourceOpened m"
    using that by (simp add: OpenVideoMuxer_rates muxerFps_eq sessionFps_def)
  have m2: "\<not> fst (OpenVideoMuxer w m x y f)
        \<and> mInputFrameRate (snd (OpenVideoMuxer w m x y f)) = mInputFrameRate m
        \<and> mOutputFrameRate (snd (OpenVideoMuxer w m x y f)) = mOutputFrameRate m"
    if "mMediaSourceOpened m"
    using that by (simp add: OpenVideoMuxer_opened)
  have g1: "\<not> fst (OpenVideoGrabDevice w m x y f)
        \<and> mInputFrameRate (snd (OpenVideoGrabDevice w m x y f)) = mInputFrameRate m
        \<and> mOutputFrameRate (snd (OpenVideoGrabDevice w m x y f)) = mOutputFrameRate m"
    if "mMediaSource m = Some s \<and> \<not> sourceOpenVideoGrabDevice w s x y (clampFps f)"
    using that by (simp add: OpenVideoGrabDevice_refused)
  have g2: "fst (OpenVideoGrabDevice w m x y f)
        \<and> mInputFrameRate (snd (OpenVideoGrabDevice w m x y f))
          = clampFps (if mStreamMaxFps m \<noteq> 0 then FloatVal (real_of_int (mStreamMaxFps m))
                      else GetOutputFrameRate w s)
        \<and> mOutputFrameRate (snd (OpenVideoGrabDevice w m x y f))
          = mInputFrameRate (snd (OpenVideoGrabDevice w m x y f))"
    if "mMediaSource m = Some s \<and> sourceOpenVideoGrabDevice w s x y (clampFps f)
        \<and> \<not> mMediaSourceOpened m"
    using that
    by (simp add: OpenVideoGrabDevice_source_closed OpenVideoMuxer_rates muxerFps_eq sessionFps_def)
  have g3: "\<not> fst (OpenVideoGrabDevice w m x y f)
        \<and> mInputFrameRate (snd (OpenVideoGrabDevice w m x y f)) = GetInputFrameRate w s
        \<and> mOutputFrameRate (snd (OpenVideoGrabDevice w m x y f)) = GetOutputFrameRate w s"
    if "mMediaSource m = Some s \<and> sourceOpenVideoGrabDevice w s x y (clampFps f)
        \<and> mMediaSourceOpened m"
    using that by (simp add: OpenVideoGrabDevice_source_opened)
  have g4: "mInputFrameRate (snd (OpenVideoGrabDevice w m x y f))
          = clampFps (if mStreamMaxFps m \<noteq> 0 then FloatVal (real_of_int (mStreamMaxFps m)) else f)
        \<and> mOutputFrameRate (snd (OpenVideoGrabDevice w m x y f))
          = mInputFrameRate (snd (OpenVideoGrabDevice w m x y f))"
    if "mMediaSource m = None \<and> \<not> mMediaSourceOpened m"
    using that
    by (simp add: OpenVideoGrabDevice_no_source OpenVideoMuxer_rates muxerFps_eq sessionFps_def
          clampFps_idem)
  have g5: "\<not> fst (OpenVideoGrabDevice w m x y f)
        \<and> mInputFrameRate (snd (OpenVideoGrabDevice w m x y f)) = mInputFrameRate m
        \<and> mOutputFrameRate (snd (OpenVideoGrabDevice w m x y f)) = mOutputFrameRate m"
    if "mMediaSource m = None \<and> mMediaSourceOpened m"
    using that by (simp add: OpenVideoGrabDevice_no_source)
  show ?thesis
    using c1 c2 c3 c4 m1 m2 g1 g2 g3 g4 g5 by blast
qed

theorem frame_rate_clamped_on_open_witness:
  "\<not> mMediaSourceOpened ((newMuxer None)\<lparr>mStreamCodecId := AV_CODEC_ID_H264\<rparr>)
   \<and> mMediaSource ((newMuxer None)\<lparr>mStreamCodecId := AV_CODEC_ID_H264\<rparr>) = None
   \<and> mInputFrameRate (snd (OpenVideoGrabDevice (sampleWorld [AV_CODEC_ID_H264])
          ((newMuxer None)\<lparr>mStreamCodecId := AV_CODEC_ID_H264\<rparr>) 352 288 (FloatVal 60)))
        = FloatVal float_29_97
   \<and> mInputFrameRate (snd (OpenVideoGrabDevice (sampleWorld [AV_CODEC_ID_H264])
          ((newMuxer None)\<lparr>mStreamCodecId := AV_CODEC_ID_H264\<rparr>) 352 288 (FloatVal 20)))
        = FloatVal 20
   \<and> mOutputFrameRate (snd (OpenVideoMuxer (sampleWorld [AV_CODEC_ID_H264])
          ((newMuxer None)\<lparr>mStreamCodecId := AV_CODEC_ID_H264\<rparr>) 352 288 (FloatVal 1)))
        = FloatVal 5
   \<and> float_between 5 29.97 (clampFps (FloatVal 1000))
   \<and> mMediaSource ((newMuxer (Some 0))\<lparr>mStreamCodecId := AV_CODEC_ID_H264\<rparr>) = Some 0
   \<and> sourceOpenVideoGrabDevice (sampleWorld [AV_CODEC_ID_H264]) 0 352 288 (clampFps (FloatVal 3))
   \<and> \<not> mMediaSourceOpened ((newMuxer (Some 0))\<lparr>mStreamCodecId := AV_CODEC_ID_H264\<rparr>)
   \<and> fst (OpenVideoGrabDevice (sampleWorld [AV_CODEC_ID_H264])
          ((newMuxer (Some 0))\<lparr>mStreamCodecId := AV_CODEC_ID_H264\<rparr>) 352 288 (FloatVal 3))
   \<and> mInputFrameRate (snd (OpenVideoGrabDevice (sampleWorld [AV_CODEC_ID_H264])
          ((newMuxer (Some 0))\<lparr>mStreamCodecId := AV_CODEC_ID_H264\<rparr>) 352 288 (FloatVal 3)))
        = FloatVal float_29_97
   \<and> \<not> sourceOpenVideoGrabDevice (openableWorld []) 0 352 288 (clampFps (FloatVal 3))
   \<and> \<not> fst (OpenVideoGrabDevice (openableWorld [])
          ((newMuxer (Some 0))\<lparr>mStreamCodecId := AV_CODEC_ID_H264\<rparr>) 352 288 (FloatVal 3))
   \<and> mMediaSourceOpened videoMuxer
   \<and> mMediaSource videoMuxer = Some 0
   \<and> sourceOpenVideoGrabDevice fastSourceWorld 0 352 288 (clampFps (FloatVal 60))
   \<and> \<not> fst (OpenVideoGrabDevice fastSourceWorld videoMuxer 352 288 (FloatVal 60))
   \<and> mInputFrameRate (snd (OpenVideoGrabDevice fastSourceWorld videoMuxer 352 288 (FloatVal 60)))
        = FloatVal 60"
proof -
  let ?w = "sampleWorld [AV_CODEC_ID_H264]"
  let ?mN = "(newMuxer None)\<lparr>mStreamCodecId := AV_CODEC_ID_H264\<rparr>"
  let ?mS = "(newMuxer (Some 0))\<lparr>mStreamCodecId := AV_CODEC_ID_H264\<rparr>"
  have hN: "\<not> mMediaSourceOpened ?mN" "mMediaSource ?mN = None" "mStreamMaxFps ?mN = 0"
    by (simp_all add: newMuxer_def)
  have hS: "\<not> mMediaSourceOpened ?mS" "mMediaSource ?mS = Some 0" "mStreamMaxFps ?mS = 0"
    by (simp_all add: newMuxer_def)
  have hV: "mMediaSourceOpened videoMuxer" "mMediaSource videoMuxer = Some 0"
    by (simp_all add: videoMuxer_def newMuxer_def)
  have hw: "sourceOpenVideoGrabDevice ?w 0 352 288 g" "GetOutputFrameRate ?w 0 = FloatVal 30"
    "\<not> sourceOpenVideoGrabDevice (openableWorld []) 0 352 288 g"
    "sourceOpenVideoGrabDevice fastSourceWorld 0 352 288 g"
    "GetInputFrameRate fastSourceWorld 0 = FloatVal 60" for g
    by (simp_all add: sampleWorld_def openableWorld_def fastSourceWorld_def)
  have k: "(60::real) > double_29_97" "\<not> (20::real) > double_29_97" "(30::real) > double_29_97"
    "\<not> (1::real) > double_29_97" "(1000::real) > double_29_97"
    by (simp_all add: double_29_97_def)
  show ?thesis
    using frame_rate_clamped_on_open [where r = 60 and m = ?mN and w = ?w and x = 352 and y = 288
             and f = "FloatVal 60" and s = 0]
      frame_rate_clamped_on_open [where r = 20 and m = ?mN and w = ?w and x = 352 and y = 288
             and f = "FloatVal 20" and s = 0]
      frame_rate_clamped_on_open [where r = 1 and m = ?mN and w = ?w and x = 352 and y = 288
             and f = "FloatVal 1" and s = 0]
      frame_rate_clamped_on_open [where r = 1000 and m = ?mS and w = ?w and x = 352 and y = 288
             and f = "FloatVal 3" and s = 0]
      frame_rate_clamped_on_open [where r = 30 and m = ?mS and w = "openableWorld []" and x = 352 and y = 288
             and f = "FloatVal 3" and s = 0]
      frame_rate_clamped_on_open [where r = 60 and m = videoMuxer and w = fastSourceWorld and x = 352
             and y = 288 and f = "FloatVal 60" and s = 0]
    by (simp only: hN hS hV hw k simp_thms if_True if_False option.case) simp
qed

text \<open>
  The claim as stated fails. The rate that is bounded and stored need not be the requested
  one: on a closed muxer with a base source that delivers 30 frames per second a request of
  3 ends as the \<^verbatim>\<open>float\<close> nearest to 29.97, not as 5. On an open muxer with a base source that
  reports 60 frames per second, \<^verbatim>\<open>OpenVideoGrabDevice\<close> leaves 60 as the input frame rate.
  And a request that is not a number is stored as it is.
\<close>

theorem frame_rate_not_clamped_counterexample:
  "mInputFrameRate (snd (OpenVideoMuxer (sampleWorld [AV_CODEC_ID_H264])
          ((newMuxer (Some 0))\<lparr>mStreamCodecId := AV_CODEC_ID_H264\<rparr>) 352 288 (FloatVal 3)))
     = FloatVal (15712911 / 524288)
   \<and> mInputFrameRate (snd (OpenVideoGrabDevice fastSourceWorld videoMuxer 352 288 (FloatVal 60)))
        = FloatVal 60
   \<and> \<not> float_between 5 29.97
          (mInputFrameRate (snd (OpenVideoGrabDevice fastSourceWorld videoMuxer 352 288 (FloatVal 60))))
   \<and> mInputFrameRate (snd (OpenVideoMuxer (sampleWorld [AV_CODEC_ID_H264])
          ((newMuxer None)\<lparr>mStreamCodecId := AV_CODEC_ID_H264\<rparr>) 352 288 FloatNaN))
     = FloatNaN
   \<and> \<not> float_between 5 29.97
          (mInputFrameRate (snd (OpenVideoMuxer (sampleWorld [AV_CODEC_ID_H264])
             ((newMuxer None)\<lparr>mStreamCodecId := AV_CODEC_ID_H264\<rparr>) 352 288 FloatNaN)))"
  by (simp add: OpenVideoMuxer_def OpenVideoGrabDevice_def muxerFps_def clampFps_def float_gt_def
        float_lt_def float_ne_def float_between_def double_29_97_def float_29_97_def Let_def
        newMuxer_def videoMuxer_def sampleWorld_def fastSourceWorld_def muxer_steps)

end
